theory Spec2Isabelle
  imports Complex_Main "HOL-Library.Word"
begin

text \<open>
  The preprocessing of the two brain-tumour notebooks, one training an SVM and one an
  RNN: the loader \<^verbatim>\<open>load_images_from_folder\<close>, which each notebook writes out, and the
  statements of the first code cell that split the dataset, scale it and, in the RNN
  notebook, reshape it.

  The loader is translated statement by statement. What it calls is not a part of the
  notebooks: the file system and the imaging library are parameters of the model, and
  the library routines for splitting, scaling and reshaping are modelled after the
  libraries' behaviour, with the random generator and the floating-point arithmetic as
  parameters. An exception is a value: a call returns \<open>Inl\<close> of the exception it raises
  or \<open>Inr\<close> of its result, and what a cell prints is returned beside it.
\<close>

section \<open>Exceptions and the outside world\<close>

text \<open>
  A Python exception that is an instance of \<^verbatim>\<open>Exception\<close>: its class name and the text
  \<^verbatim>\<open>str(e)\<close> gives. Interrupts (\<^verbatim>\<open>KeyboardInterrupt\<close>, \<^verbatim>\<open>SystemExit\<close>), which
  \<^verbatim>\<open>except Exception\<close> does not catch, are outside the model.
\<close>

datatype py_exception = PyExc (exc_class: string) (exc_str: string)

definition ValueError :: "string \<Rightarrow> py_exception" where
  "ValueError msg = PyExc ''ValueError'' msg"

definition IndexError :: "string \<Rightarrow> py_exception" where
  "IndexError msg = PyExc ''IndexError'' msg"

text \<open>
  A single-band (mode \<^verbatim>\<open>L\<close>) image: its size and one 8-bit intensity per pixel,
  addressed by column and row.
\<close>

record gray_image =
  width :: nat
  height :: nat
  pixel :: "nat \<Rightarrow> nat \<Rightarrow> 8 word"

text \<open>
  The file system and the imaging library, as the loader uses them. Each call either
  returns or raises. \<open>'img\<close> is an opened image of any mode. \<open>resample\<close> stands for
  the library's resampling filter: it gives the intensity of every pixel of the resized
  image.
\<close>

record 'img imaging =
  path_join :: "string \<Rightarrow> string \<Rightarrow> string"
  listdir :: "string \<Rightarrow> py_exception + string list"
  image_open :: "string \<Rightarrow> py_exception + 'img"
  convert_L :: "'img \<Rightarrow> py_exception + gray_image"
  resample :: "gray_image \<Rightarrow> nat \<times> nat \<Rightarrow> py_exception + (nat \<Rightarrow> nat \<Rightarrow> 8 word)"

text \<open>\<^verbatim>\<open>img.resize((w, h))\<close>: a new image of exactly the requested size.\<close>

definition resize :: "'img imaging \<Rightarrow> gray_image \<Rightarrow> nat \<times> nat \<Rightarrow> py_exception + gray_image" where
  "resize io img sz =
     (case resample io img sz of
        Inl e \<Rightarrow> Inl e
      | Inr f \<Rightarrow> Inr \<lparr>width = fst sz, height = snd sz, pixel = f\<rparr>)"

text \<open>\<^verbatim>\<open>np.array(img)\<close> of a mode-\<^verbatim>\<open>L\<close> image: \<open>height\<close> rows of \<open>width\<close> bytes.\<close>

definition np_array :: "gray_image \<Rightarrow> 8 word list list" where
  "np_array img = map (\<lambda>r. map (\<lambda>c. pixel img c r) [0..<width img]) [0..<height img]"

text \<open>\<^verbatim>\<open>a.flatten()\<close> of a two-dimensional array, in C order: the rows one after another.\<close>

definition flatten :: "'a list list \<Rightarrow> 'a list" where
  "flatten a = concat a"

section \<open>The loader\<close>

text \<open>The body of the \<^verbatim>\<open>try\<close> block: open, convert to grayscale, resize, flatten.\<close>

definition load_image :: "'img imaging \<Rightarrow> string \<Rightarrow> py_exception + 8 word list" where
  "load_image io img_path =
     (case image_open io img_path of
        Inl e \<Rightarrow> Inl e
      | Inr opened \<Rightarrow>
          (case convert_L io opened of
             Inl e \<Rightarrow> Inl e
           | Inr gray \<Rightarrow>
               (case resize io gray (64, 64) of
                  Inl e \<Rightarrow> Inl e
                | Inr img \<Rightarrow> Inr (flatten (np_array img)))))"

text \<open>What \<^verbatim>\<open>print(f"Error loading image {img_path}: {e}")\<close> writes.\<close>

definition error_line :: "string \<Rightarrow> py_exception \<Rightarrow> string" where
  "error_line img_path e = ''Error loading image '' @ img_path @ '': '' @ exc_str e"

text \<open>
  The loader's variables \<^verbatim>\<open>images\<close> and \<^verbatim>\<open>labels\<close>, and the lines printed so far.
\<close>

type_synonym loader_state = "8 word list list \<times> int list \<times> string list"

text \<open>The inner loop, over the file names of one subfolder.\<close>

fun load_files :: "'img imaging \<Rightarrow> string \<Rightarrow> int \<Rightarrow> string list \<Rightarrow> loader_state \<Rightarrow> loader_state" where
  "load_files io path label [] st = st"
| "load_files io path label (filename # rest) (images, labels, out) =
     (let img_path = path_join io path filename in
      case load_image io img_path of
        Inr img_array \<Rightarrow>
          load_files io path label rest (images @ [img_array], labels @ [label], out)
      | Inl e \<Rightarrow>
          load_files io path label rest (images, labels, out @ [error_line img_path e]))"

text \<open>
  The outer loop, over \<^verbatim>\<open>enumerate(['no', 'yes'])\<close>. \<^verbatim>\<open>os.listdir\<close> is outside the
  \<^verbatim>\<open>try\<close> block: when it raises, the function raises, and the lines printed so far stay
  printed.
\<close>

fun load_subfolders ::
  "'img imaging \<Rightarrow> string \<Rightarrow> (nat \<times> string) list \<Rightarrow> loader_state
     \<Rightarrow> string list \<times> (py_exception + 8 word list list \<times> int list)" where
  "load_subfolders io folder [] (images, labels, out) = (out, Inr (images, labels))"
| "load_subfolders io folder ((label, subfolder) # rest) (images, labels, out) =
     (let path = path_join io folder subfolder in
      case listdir io path of
        Inl e \<Rightarrow> (out, Inl e)
      | Inr filenames \<Rightarrow>
          load_subfolders io folder rest
            (load_files io path (int label) filenames (images, labels, out)))"

text \<open>
  \<^verbatim>\<open>load_images_from_folder\<close> of the SVM notebook: the printed lines, and the raised
  exception or the pair \<^verbatim>\<open>(np.array(images), np.array(labels))\<close>.
\<close>

definition load_images_from_folder ::
  "'img imaging \<Rightarrow> string \<Rightarrow> string list \<times> (py_exception + 8 word list list \<times> int list)" where
  "load_images_from_folder io folder =
     load_subfolders io folder (enumerate 0 [''no'', ''yes'']) ([], [], [])"

text \<open>
  \<^verbatim>\<open>load_images_from_folder\<close> of the RNN notebook, translated from that notebook's own
  cell: its inner loop, its outer loop and the function.
\<close>

fun rnn_load_files :: "'img imaging \<Rightarrow> string \<Rightarrow> int \<Rightarrow> string list \<Rightarrow> loader_state \<Rightarrow> loader_state" where
  "rnn_load_files io path label [] st = st"
| "rnn_load_files io path label (filename # rest) (images, labels, out) =
     (let img_path = path_join io path filename in
      case (case image_open io img_path of
              Inl e \<Rightarrow> Inl e
            | Inr opened \<Rightarrow>
                (case convert_L io opened of
                   Inl e \<Rightarrow> Inl e
                 | Inr gray \<Rightarrow>
                     (case resize io gray (64, 64) of
                        Inl e \<Rightarrow> Inl e
                      | Inr img \<Rightarrow> Inr (flatten (np_array img))))) of
        Inr img_array \<Rightarrow>
          rnn_load_files io path label rest (images @ [img_array], labels @ [label], out)
      | Inl e \<Rightarrow>
          rnn_load_files io path label rest
            (images, labels, out @ [''Error loading image '' @ img_path @ '': '' @ exc_str e]))"

fun rnn_load_subfolders ::
  "'img imaging \<Rightarrow> string \<Rightarrow> (nat \<times> string) list \<Rightarrow> loader_state
     \<Rightarrow> string list \<times> (py_exception + 8 word list list \<times> int list)" where
  "rnn_load_subfolders io folder [] (images, labels, out) = (out, Inr (images, labels))"
| "rnn_load_subfolders io folder ((label, subfolder) # rest) (images, labels, out) =
     (let path = path_join io folder subfolder in
      case listdir io path of
        Inl e \<Rightarrow> (out, Inl e)
      | Inr filenames \<Rightarrow>
          rnn_load_subfolders io folder rest
            (rnn_load_files io path (int label) filenames (images, labels, out)))"

definition rnn_load_images_from_folder ::
  "'img imaging \<Rightarrow> string \<Rightarrow> string list \<times> (py_exception + 8 word list list \<times> int list)" where
  "rnn_load_images_from_folder io folder =
     rnn_load_subfolders io folder (enumerate 0 [''no'', ''yes'']) ([], [], [])"

section \<open>The splitter\<close>

text \<open>
  \<^verbatim>\<open>train_test_split\<close> is scikit-learn's; the notebooks only call it. The model follows
  the library: for a fractional \<^verbatim>\<open>test_size\<close> the test subset gets
  \<^verbatim>\<open>ceil(test_size * n_samples)\<close> samples and the training subset the rest, an empty
  training subset is refused, and the samples are drawn through one permutation of
  \<^verbatim>\<open>range(n_samples)\<close> made by the seeded generator: its first \<^verbatim>\<open>n_test\<close> indices are the
  test subset, the next \<^verbatim>\<open>n_train\<close> the training subset. The generator itself is a
  parameter: \<open>permutation seed n\<close> is what \<^verbatim>\<open>RandomState(seed).permutation(n)\<close> returns.
  The fraction is a rational number; \<^verbatim>\<open>0.25\<close> is \<open>1/4\<close> exactly also as a float.
\<close>

definition validate_shuffle_split :: "nat \<Rightarrow> rat \<Rightarrow> py_exception + nat \<times> nat" where
  "validate_shuffle_split n_samples test_size =
     (if test_size \<le> 0 \<or> test_size \<ge> 1
      then Inl (ValueError ''test_size should be in the (0, 1) range'')
      else
        let n_test = nat \<lceil>test_size * of_nat n_samples\<rceil>;
            n_train = n_samples - n_test
        in if n_train = 0
           then Inl (ValueError ''the resulting train set will be empty'')
           else Inr (n_train, n_test))"

text \<open>The index lists \<open>(train, test)\<close> of the one shuffled split.\<close>

definition shuffle_split_indices ::
  "(nat \<Rightarrow> nat \<Rightarrow> nat list) \<Rightarrow> nat \<Rightarrow> nat \<Rightarrow> nat \<Rightarrow> nat \<Rightarrow> nat list \<times> nat list" where
  "shuffle_split_indices permutation random_state n_samples n_train n_test =
     (let p = permutation random_state n_samples;
          ind_test = take n_test p;
          ind_train = take n_train (drop n_test p)
      in (ind_train, ind_test))"

text \<open>\<^verbatim>\<open>a[indices]\<close>: an index out of range raises.\<close>

definition safe_indexing :: "'a list \<Rightarrow> nat list \<Rightarrow> py_exception + 'a list" where
  "safe_indexing a indices =
     (if \<forall>i \<in> set indices. i < length a
      then Inr (map (\<lambda>i. a ! i) indices)
      else Inl (IndexError ''index is out of bounds''))"

definition train_test_split ::
  "(nat \<Rightarrow> nat \<Rightarrow> nat list) \<Rightarrow> 'a list \<Rightarrow> 'b list \<Rightarrow> rat \<Rightarrow> nat
     \<Rightarrow> py_exception + 'a list \<times> 'a list \<times> 'b list \<times> 'b list" where
  "train_test_split permutation X y test_size random_state =
     (if length X \<noteq> length y
      then Inl (ValueError ''Found input variables with inconsistent numbers of samples'')
      else
        case validate_shuffle_split (length X) test_size of
          Inl e \<Rightarrow> Inl e
        | Inr (n_train, n_test) \<Rightarrow>
            (case shuffle_split_indices permutation random_state (length X) n_train n_test of
               (train, test) \<Rightarrow>
                 (case safe_indexing X train of Inl e \<Rightarrow> Inl e | Inr X_train \<Rightarrow>
                 (case safe_indexing X test of Inl e \<Rightarrow> Inl e | Inr X_test \<Rightarrow>
                 (case safe_indexing y train of Inl e \<Rightarrow> Inl e | Inr y_train \<Rightarrow>
                 (case safe_indexing y test of Inl e \<Rightarrow> Inl e | Inr y_test \<Rightarrow>
                    Inr (X_train, X_test, y_train, y_test)))))))"

section \<open>The scaler\<close>

text \<open>
  \<^verbatim>\<open>StandardScaler\<close> is scikit-learn's. Its arithmetic is floating point, which the model
  leaves open: \<open>'a\<close> is the type of the scaled values, with a zero, a one, a subtraction
  and a division, and the three numeric routines are parameters: the conversion of a
  pixel to \<open>'a\<close>, the mean of a column, and the standard deviation of a column.
\<close>

record 'a numerics =
  to_float :: "8 word \<Rightarrow> 'a"
  col_mean :: "'a list \<Rightarrow> 'a"
  col_std :: "'a list \<Rightarrow> 'a"

text \<open>
  The library's convention for a column of zero variance: its scale is 1, so that the
  transform leaves the centred values as they are.
\<close>

definition handle_zeros_in_scale :: "('a::{zero,one}) \<Rightarrow> 'a" where
  "handle_zeros_in_scale scale = (if scale = 0 then 1 else scale)"

text \<open>The fitted state of a scaler, its attributes \<^verbatim>\<open>mean_\<close> and \<^verbatim>\<open>scale_\<close>: one mean and
  one scale per feature.\<close>

record 'a standard_scaler =
  scaler_mean :: "'a list"
  scaler_scale :: "'a list"

text \<open>
  Input validation: a two-dimensional array with at least one sample and one feature,
  converted to floating point.
\<close>

definition check_array :: "'a numerics \<Rightarrow> 8 word list list \<Rightarrow> py_exception + 'a list list" where
  "check_array num X =
     (if X = [] \<or> hd X = [] \<or> \<not> list_all (\<lambda>row. length row = length (hd X)) X
      then Inl (ValueError ''Expected 2D array with at least one sample and one feature'')
      else Inr (map (map (to_float num)) X))"

definition columns :: "'a list list \<Rightarrow> 'a list list" where
  "columns X = map (\<lambda>j. map (\<lambda>row. row ! j) X) [0..<length (hd X)]"

definition scaler_fit ::
  "('a::{zero,one}) numerics \<Rightarrow> 8 word list list \<Rightarrow> py_exception + 'a standard_scaler" where
  "scaler_fit num X =
     (case check_array num X of
        Inl e \<Rightarrow> Inl e
      | Inr Xf \<Rightarrow>
          Inr \<lparr>scaler_mean = map (col_mean num) (columns Xf),
               scaler_scale = map (\<lambda>c. handle_zeros_in_scale (col_std num c)) (columns Xf)\<rparr>)"

definition scaler_transform ::
  "('a::{minus,inverse}) numerics \<Rightarrow> 'a standard_scaler \<Rightarrow> 8 word list list
     \<Rightarrow> py_exception + 'a list list" where
  "scaler_transform num scaler X =
     (case check_array num X of
        Inl e \<Rightarrow> Inl e
      | Inr Xf \<Rightarrow>
          if length (hd Xf) \<noteq> length (scaler_mean scaler)
          then Inl (ValueError ''X has a different number of features than the scaler'')
          else Inr (map (\<lambda>row. map (\<lambda>j. (row ! j - scaler_mean scaler ! j) / scaler_scale scaler ! j)
                                    [0..<length row]) Xf))"

text \<open>\<^verbatim>\<open>fit_transform(X)\<close> is \<^verbatim>\<open>fit(X).transform(X)\<close>.\<close>

definition scaler_fit_transform ::
  "('a::{zero,one,minus,inverse}) numerics \<Rightarrow> 8 word list list
     \<Rightarrow> py_exception + 'a standard_scaler \<times> 'a list list" where
  "scaler_fit_transform num X =
     (case scaler_fit num X of
        Inl e \<Rightarrow> Inl e
      | Inr scaler \<Rightarrow>
          (case scaler_transform num scaler X of
             Inl e \<Rightarrow> Inl e
           | Inr X_scaled \<Rightarrow> Inr (scaler, X_scaled)))"

text \<open>
  The three scaling statements of either notebook: a new scaler, \<^verbatim>\<open>fit_transform\<close> on
  the training subset, \<^verbatim>\<open>transform\<close> on the test subset. The result is the fitted scaler
  and the new values of \<^verbatim>\<open>X_train\<close> and \<^verbatim>\<open>X_test\<close>.
\<close>

definition feature_scaling ::
  "('a::{zero,one,minus,inverse}) numerics \<Rightarrow> 8 word list list \<Rightarrow> 8 word list list
     \<Rightarrow> py_exception + 'a standard_scaler \<times> 'a list list \<times> 'a list list" where
  "feature_scaling num X_train X_test =
     (case scaler_fit_transform num X_train of
        Inl e \<Rightarrow> Inl e
      | Inr (scaler, X_train_scaled) \<Rightarrow>
          (case scaler_transform num scaler X_test of
             Inl e \<Rightarrow> Inl e
           | Inr X_test_scaled \<Rightarrow> Inr (scaler, X_train_scaled, X_test_scaled)))"

section \<open>The shape adapter\<close>

text \<open>
  \<^verbatim>\<open>a.reshape((n0, n1, n2))\<close> of a two-dimensional array, in C order: the elements are
  read row after row and element \<open>(i, j, k)\<close> of the result is the one at position
  \<open>(i * n1 + j) * n2 + k\<close>. It raises when the number of elements is not
  \<open>n0 * n1 * n2\<close>.
\<close>

definition reshape3 :: "'a list list \<Rightarrow> nat \<times> nat \<times> nat \<Rightarrow> py_exception + 'a list list list" where
  "reshape3 a shape =
     (case shape of
        (n0, n1, n2) \<Rightarrow>
          let flat = concat a in
          if length flat \<noteq> n0 * n1 * n2
          then Inl (ValueError ''cannot reshape array'')
          else Inr (map (\<lambda>i. map (\<lambda>j. map (\<lambda>k. flat ! ((i * n1 + j) * n2 + k)) [0..<n2])
                                   [0..<n1]) [0..<n0]))"

section \<open>The preprocessing cells\<close>

definition data_folder :: string where
  "data_folder = ''./brain_tumor_dataset''"

text \<open>
  The variables a preprocessing cell leaves behind. \<open>'m\<close> is the type of a feature
  matrix: two-dimensional in the SVM notebook, three-dimensional after the RNN notebook's
  reshape.
\<close>

record ('a, 'm) notebook_vars =
  v_X :: "8 word list list"
  v_y :: "int list"
  v_X_train :: 'm
  v_X_test :: 'm
  v_y_train :: "int list"
  v_y_test :: "int list"
  v_scaler :: "'a standard_scaler"

text \<open>
  The SVM notebook's cell up to the scaler: load, split with \<^verbatim>\<open>test_size=0.25\<close> and
  \<^verbatim>\<open>random_state=90\<close>, scale. An exception raised by any stage ends the run.
\<close>

definition svm_stages ::
  "'img imaging \<Rightarrow> ('a::{zero,one,minus,inverse}) numerics \<Rightarrow> (nat \<Rightarrow> nat \<Rightarrow> nat list)
     \<Rightarrow> string list \<times> (py_exception + ('a, 'a list list) notebook_vars)" where
  "svm_stages io num permutation =
     (case load_images_from_folder io data_folder of
        (out, Inl e) \<Rightarrow> (out, Inl e)
      | (out, Inr (X, y)) \<Rightarrow>
          (case train_test_split permutation X y (1/4) 90 of
             Inl e \<Rightarrow> (out, Inl e)
           | Inr (X_train, X_test, y_train, y_test) \<Rightarrow>
               (case feature_scaling num X_train X_test of
                  Inl e \<Rightarrow> (out, Inl e)
                | Inr (scaler, X_train_scaled, X_test_scaled) \<Rightarrow>
                    (out, Inr \<lparr>v_X = X, v_y = y,
                               v_X_train = X_train_scaled, v_X_test = X_test_scaled,
                               v_y_train = y_train, v_y_test = y_test,
                               v_scaler = scaler\<rparr>))))"

text \<open>The whole cell: the three stages, then the closing message.\<close>

definition svm_cell ::
  "'img imaging \<Rightarrow> ('a::{zero,one,minus,inverse}) numerics \<Rightarrow> (nat \<Rightarrow> nat \<Rightarrow> nat list)
     \<Rightarrow> string list \<times> (py_exception + ('a, 'a list list) notebook_vars)" where
  "svm_cell io num permutation =
     (case svm_stages io num permutation of
        (out, Inl e) \<Rightarrow> (out, Inl e)
      | (out, Inr vars) \<Rightarrow> (out @ [''Data loading and preprocessing complete.''], Inr vars))"

text \<open>The RNN notebook's cell up to the scaler, from that notebook's own statements.\<close>

definition rnn_stages ::
  "'img imaging \<Rightarrow> ('a::{zero,one,minus,inverse}) numerics \<Rightarrow> (nat \<Rightarrow> nat \<Rightarrow> nat list)
     \<Rightarrow> string list \<times> (py_exception + ('a, 'a list list) notebook_vars)" where
  "rnn_stages io num permutation =
     (case rnn_load_images_from_folder io data_folder of
        (out, Inl e) \<Rightarrow> (out, Inl e)
      | (out, Inr (X, y)) \<Rightarrow>
          (case train_test_split permutation X y (1/4) 90 of
             Inl e \<Rightarrow> (out, Inl e)
           | Inr (X_train, X_test, y_train, y_test) \<Rightarrow>
               (case feature_scaling num X_train X_test of
                  Inl e \<Rightarrow> (out, Inl e)
                | Inr (scaler, X_train_scaled, X_test_scaled) \<Rightarrow>
                    (out, Inr \<lparr>v_X = X, v_y = y,
                               v_X_train = X_train_scaled, v_X_test = X_test_scaled,
                               v_y_train = y_train, v_y_test = y_test,
                               v_scaler = scaler\<rparr>))))"

text \<open>
  The whole RNN cell: the three stages, the two reshapes to
  \<^verbatim>\<open>(shape[0], 64, 64)\<close>, then the closing message.
\<close>

definition rnn_cell ::
  "'img imaging \<Rightarrow> ('a::{zero,one,minus,inverse}) numerics \<Rightarrow> (nat \<Rightarrow> nat \<Rightarrow> nat list)
     \<Rightarrow> string list \<times> (py_exception + ('a, 'a list list list) notebook_vars)" where
  "rnn_cell io num permutation =
     (case rnn_stages io num permutation of
        (out, Inl e) \<Rightarrow> (out, Inl e)
      | (out, Inr vars) \<Rightarrow>
          (case reshape3 (v_X_train vars) (length (v_X_train vars), 64, 64) of
             Inl e \<Rightarrow> (out, Inl e)
           | Inr X_train3 \<Rightarrow>
               (case reshape3 (v_X_test vars) (length (v_X_test vars), 64, 64) of
                  Inl e \<Rightarrow> (out, Inl e)
                | Inr X_test3 \<Rightarrow>
                    (out @ [''Data loading and preprocessing complete.''],
                     Inr \<lparr>v_X = v_X vars, v_y = v_y vars,
                          v_X_train = X_train3, v_X_test = X_test3,
                          v_y_train = v_y_train vars, v_y_test = v_y_test vars,
                          v_scaler = v_scaler vars\<rparr>))))"

section \<open>Vocabulary of the properties\<close>

text \<open>
  The arrays of the entries of one listing that decode, in listing order, and the lines
  printed for the entries that do not.
\<close>

definition decoded_files :: "'img imaging \<Rightarrow> string \<Rightarrow> string list \<Rightarrow> 8 word list list" where
  "decoded_files io path filenames =
     map (\<lambda>f. projr (load_image io (path_join io path f)))
       (filter (\<lambda>f. \<not> isl (load_image io (path_join io path f))) filenames)"

definition failure_lines :: "'img imaging \<Rightarrow> string \<Rightarrow> string list \<Rightarrow> string list" where
  "failure_lines io path filenames =
     map (\<lambda>f. error_line (path_join io path f) (projl (load_image io (path_join io path f))))
       (filter (\<lambda>f. isl (load_image io (path_join io path f))) filenames)"

text \<open>
  A small world for the examples. Under \<^verbatim>\<open>no\<close>: a black image, a text file and an
  image that is black but for its lower right quarter; under \<^verbatim>\<open>yes\<close>: a white image.
  Every other directory is missing. The source images are 2 by 2, and resampling takes
  the nearest source pixel.
\<close>

definition demo_io :: "gray_image imaging" where
  "demo_io =
     \<lparr>path_join = (\<lambda>a b. a @ ''/'' @ b),
      listdir = (\<lambda>p. if p = ''./brain_tumor_dataset/no'' then Inr [''n1.png'', ''notes.txt'', ''n2.png'']
                     else if p = ''./brain_tumor_dataset/yes'' then Inr [''y1.png'']
                     else Inl (PyExc ''FileNotFoundError'' ''No such file or directory'')),
      image_open = (\<lambda>p. if p = ''./brain_tumor_dataset/no/notes.txt''
                        then Inl (PyExc ''UnidentifiedImageError'' ''cannot identify image file'')
                        else Inr \<lparr>width = 2, height = 2,
                                  pixel = (\<lambda>c r. if p = ''./brain_tumor_dataset/yes/y1.png'' then 255
                                                 else if p = ''./brain_tumor_dataset/no/n2.png'' \<and> c = 1 \<and> r = 1
                                                 then 100 else 0)\<rparr>),
      convert_L = Inr,
      resample = (\<lambda>img sz. Inr (\<lambda>c r. pixel img (c * width img div fst sz) (r * height img div snd sz)))\<rparr>"

text \<open>
  A generator for the examples: it returns the indices in descending order, whatever the
  seed.
\<close>

definition reversing_permutation :: "nat \<Rightarrow> nat \<Rightarrow> nat list" where
  "reversing_permutation seed n = rev [0..<n]"

text \<open>
  What the scaler's transform computes from a pixel array, a mean and a scale per column:
  \<open>(value - mean[col]) / scale[col]\<close> at every row and column.
\<close>

definition standardize :: "('a::{minus,inverse}) numerics \<Rightarrow> 'a standard_scaler \<Rightarrow> 8 word list list \<Rightarrow> 'a list list" where
  "standardize num scaler X =
     map (\<lambda>row. map (\<lambda>j. (to_float num (row ! j) - scaler_mean scaler ! j) / scaler_scale scaler ! j)
                      [0..<length row]) X"

text \<open>
  The numeric routines in exact real arithmetic, for the examples: the mean and the
  population standard deviation.
\<close>

definition exact_numerics :: "real numerics" where
  "exact_numerics =
     \<lparr>to_float = (\<lambda>b. of_nat (unat b)),
      col_mean = (\<lambda>c. sum_list c / of_nat (length c)),
      col_std = (\<lambda>c. let m = sum_list c / of_nat (length c)
                     in sqrt (sum_list (map (\<lambda>v. (v - m)\<^sup>2) c) / of_nat (length c)))\<rparr>"

text \<open>The small world without its \<^verbatim>\<open>yes\<close> directory.\<close>

definition demo_io_without_yes :: "gray_image imaging" where
  "demo_io_without_yes =
     demo_io\<lparr>listdir := (\<lambda>p. if p = ''./brain_tumor_dataset/no'' then Inr [''n1.png'', ''notes.txt'', ''n2.png'']
                              else Inl (PyExc ''FileNotFoundError'' ''No such file or directory''))\<rparr>"

text \<open>The three images of the small world, as the loader returns them.\<close>

definition demo_n1 :: "8 word list" where
  "demo_n1 = flatten (np_array \<lparr>width = 64, height = 64, pixel = (\<lambda>c r. 0)\<rparr>)"

definition demo_n2 :: "8 word list" where
  "demo_n2 = flatten (np_array \<lparr>width = 64, height = 64,
                                pixel = (\<lambda>c r. if c div 32 = 1 \<and> r div 32 = 1 then 100 else 0)\<rparr>)"

definition demo_y1 :: "8 word list" where
  "demo_y1 = flatten (np_array \<lparr>width = 64, height = 64, pixel = (\<lambda>c r. 255)\<rparr>)"

section \<open>Properties of the loader\<close>

lemma load_files_eq:
  "load_files io path label filenames (images, labels, out) =
     (images @ decoded_files io path filenames,
      labels @ replicate (length (decoded_files io path filenames)) label,
      out @ failure_lines io path filenames)"
proof (induction filenames arbitrary: images labels out)
  case Nil
  show ?case by (simp add: decoded_files_def failure_lines_def)
next
  case (Cons f fs)
  show ?case
  proof (cases "load_image io (path_join io path f)")
    case (Inl e)
    then show ?thesis
      using Cons.IH [of images labels "out @ [error_line (path_join io path f) e]"]
      by (simp add: decoded_files_def failure_lines_def)
  next
    case (Inr v)
    then show ?thesis
      using Cons.IH [of "images @ [v]" "labels @ [label]" out]
      by (simp add: decoded_files_def failure_lines_def replicate_app_Cons_same)
  qed
qed

lemma load_images_from_folder_eq:
  assumes "listdir io (path_join io folder ''no'') = Inr ns"
    and "listdir io (path_join io folder ''yes'') = Inr ys"
  shows "load_images_from_folder io folder =
     (failure_lines io (path_join io folder ''no'') ns @ failure_lines io (path_join io folder ''yes'') ys,
      Inr (decoded_files io (path_join io folder ''no'') ns @ decoded_files io (path_join io folder ''yes'') ys,
           replicate (length (decoded_files io (path_join io folder ''no'') ns)) 0 @
           replicate (length (decoded_files io (path_join io folder ''yes'') ys)) 1))"
  using assms by (simp add: load_images_from_folder_def load_files_eq Let_def)

lemma load_no_listing_fails:
  assumes "listdir io (path_join io folder ''no'') = Inl e"
  shows "load_images_from_folder io folder = ([], Inl e)"
  using assms by (simp add: load_images_from_folder_def Let_def)

lemma load_yes_listing_fails:
  assumes "listdir io (path_join io folder ''no'') = Inr ns"
    and "listdir io (path_join io folder ''yes'') = Inl e"
  shows "load_images_from_folder io folder = (failure_lines io (path_join io folder ''no'') ns, Inl e)"
  using assms by (simp add: load_images_from_folder_def load_files_eq Let_def)

lemma rnn_load_files_eq: "rnn_load_files io path label filenames st = load_files io path label filenames st"
proof (induction filenames arbitrary: st)
  case Nil
  show ?case by simp
next
  case (Cons f fs)
  obtain images labels out where st: "st = (images, labels, out)"
    by (cases st) auto
  show ?case
    unfolding st
    by (simp add: Cons.IH load_image_def error_line_def Let_def split: sum.splits)
qed

lemma rnn_load_subfolders_eq:
  "rnn_load_subfolders io folder subs st = load_subfolders io folder subs st"
proof (induction subs arbitrary: st)
  case Nil
  show ?case by (cases st) auto
next
  case (Cons s subs)
  obtain images labels out where st: "st = (images, labels, out)"
    by (cases st) auto
  obtain label subfolder where s: "s = (label, subfolder)"
    by (cases s) auto
  show ?case
    unfolding st s
    by (simp add: Cons.IH rnn_load_files_eq Let_def split: sum.splits)
qed

lemma rnn_loader_eq: "rnn_load_images_from_folder io folder = load_images_from_folder io folder"
  by (simp add: rnn_load_images_from_folder_def load_images_from_folder_def rnn_load_subfolders_eq)

lemma nth_concat_uniform:
  "\<forall>row \<in> set xss. length row = w \<Longrightarrow> i < length xss \<Longrightarrow> j < w \<Longrightarrow>
     concat xss ! (i * w + j) = xss ! i ! j"
proof (induction xss arbitrary: i)
  case Nil
  then show ?case by simp
next
  case (Cons xs xss)
  show ?case
  proof (cases i)
    case 0
    with Cons.prems show ?thesis by (simp add: nth_append)
  next
    case (Suc k)
    with Cons.prems have "concat xss ! (k * w + j) = xss ! k ! j"
      using Cons.IH [of k] by simp
    with Suc Cons.prems show ?thesis by (simp add: nth_append)
  qed
qed

lemma length_concat_uniform:
  "\<forall>row \<in> set xss. length row = w \<Longrightarrow> length (concat xss) = length xss * w"
  by (induction xss) auto

lemma resize_size:
  assumes "resize io gray (w, h) = Inr img"
  shows "width img = w \<and> height img = h"
  using assms by (auto simp: resize_def split: sum.splits)

lemma load_image_shape:
  assumes "load_image io p = Inr v"
  shows "\<exists>img. width img = 64 \<and> height img = 64 \<and> v = flatten (np_array img)"
proof -
  from assms obtain gray img where
    r: "resize io gray (64, 64) = Inr img" and v: "v = flatten (np_array img)"
    by (auto simp: load_image_def split: sum.splits)
  from resize_size [OF r] v show ?thesis by blast
qed

lemma flatten_np_array_nth:
  assumes "r < height img" and "c < width img"
  shows "flatten (np_array img) ! (r * width img + c) = pixel img c r"
proof -
  have "concat (np_array img) ! (r * width img + c) = np_array img ! r ! c"
    by (rule nth_concat_uniform) (use assms in \<open>auto simp: np_array_def\<close>)
  then show ?thesis using assms by (simp add: flatten_def np_array_def)
qed

lemma length_flatten_np_array: "length (flatten (np_array img)) = height img * width img"
  unfolding flatten_def
  by (subst length_concat_uniform [where w = "width img"]) (auto simp: np_array_def)

lemma demo_no:
  "listdir demo_io (path_join demo_io data_folder ''no'') = Inr [''n1.png'', ''notes.txt'', ''n2.png'']"
  by (simp add: demo_io_def data_folder_def)

lemma demo_yes: "listdir demo_io (path_join demo_io data_folder ''yes'') = Inr [''y1.png'']"
  by (simp add: demo_io_def data_folder_def)

lemma demo_decoded_no:
  "decoded_files demo_io (path_join demo_io data_folder ''no'') [''n1.png'', ''notes.txt'', ''n2.png'']
     = [projr (load_image demo_io ''./brain_tumor_dataset/no/n1.png''),
        projr (load_image demo_io ''./brain_tumor_dataset/no/n2.png'')]"
  by (simp add: decoded_files_def load_image_def resize_def demo_io_def data_folder_def)

lemma demo_decoded_yes:
  "decoded_files demo_io (path_join demo_io data_folder ''yes'') [''y1.png'']
     = [projr (load_image demo_io ''./brain_tumor_dataset/yes/y1.png'')]"
  by (simp add: decoded_files_def load_image_def resize_def demo_io_def data_folder_def)

lemma demo_failures_no:
  "failure_lines demo_io (path_join demo_io data_folder ''no'') [''n1.png'', ''notes.txt'', ''n2.png'']
     = [''Error loading image ./brain_tumor_dataset/no/notes.txt: cannot identify image file'']"
  by (simp add: failure_lines_def load_image_def resize_def demo_io_def data_folder_def error_line_def)

lemma demo_failures_yes:
  "failure_lines demo_io (path_join demo_io data_folder ''yes'') [''y1.png''] = []"
  by (simp add: failure_lines_def load_image_def resize_def demo_io_def data_folder_def error_line_def)

lemma zip_replicate_label: "zip xs (replicate (length xs) c) = map (\<lambda>v. (v, c)) xs"
  by (induction xs) auto

text \<open>
  C2. Every sample the loader returns carries the index of the subfolder it was read
  from: the returned pairs of pixel vector and label are the decoded entries of
  \<^verbatim>\<open>no\<close>, each with label 0, followed by the decoded entries of \<^verbatim>\<open>yes\<close>, each with
  label 1. The loader of the RNN notebook returns the same.
\<close>

theorem label_is_subfolder_index:
  assumes "listdir io (path_join io folder ''no'') = Inr ns"
    and "listdir io (path_join io folder ''yes'') = Inr ys"
  shows "\<exists>X y. snd (load_images_from_folder io folder) = Inr (X, y) \<and>
           snd (rnn_load_images_from_folder io folder) = Inr (X, y) \<and>
           length y = length X \<and>
           zip X y =
             map (\<lambda>v. (v, 0)) (decoded_files io (path_join io folder ''no'') ns) @
             map (\<lambda>v. (v, 1)) (decoded_files io (path_join io folder ''yes'') ys)"
  by (simp add: rnn_loader_eq load_images_from_folder_eq [OF assms] zip_replicate_label)

theorem label_is_subfolder_index_witness:
  "\<exists>X y. snd (load_images_from_folder demo_io data_folder) = Inr (X, y) \<and>
         snd (rnn_load_images_from_folder demo_io data_folder) = Inr (X, y) \<and>
         length y = length X \<and>
         zip X y = [(projr (load_image demo_io ''./brain_tumor_dataset/no/n1.png''), 0),
                    (projr (load_image demo_io ''./brain_tumor_dataset/no/n2.png''), 0),
                    (projr (load_image demo_io ''./brain_tumor_dataset/yes/y1.png''), 1)]"
  using label_is_subfolder_index [OF demo_no demo_yes]
  by (simp add: demo_decoded_no demo_decoded_yes)



lemma flatten_np_array_64:
  "flatten (np_array \<lparr>width = 64, height = 64, pixel = f\<rparr>) =
     map (\<lambda>i. f (i mod 64) (i div 64)) [0..<4096]"
proof (rule nth_equalityI)
  let ?img = "\<lparr>width = 64, height = 64, pixel = f\<rparr>"
  show len: "length (flatten (np_array ?img)) = length (map (\<lambda>i. f (i mod 64) (i div 64)) [0..<4096])"
    using length_flatten_np_array [of ?img] by simp
  fix i
  assume "i < length (flatten (np_array ?img))"
  then have i: "i < 4096"
    using len by simp
  then have r: "i div 64 < height ?img" and c: "i mod 64 < width ?img"
    by simp_all
  have "flatten (np_array ?img) ! (i div 64 * width ?img + i mod 64) = pixel ?img (i mod 64) (i div 64)"
    by (rule flatten_np_array_nth [OF r c])
  then have "flatten (np_array ?img) ! i = f (i mod 64) (i div 64)"
    by simp
  with i show "flatten (np_array ?img) ! i = map (\<lambda>i. f (i mod 64) (i div 64)) [0..<4096] ! i"
    by simp
qed

lemma load_image_iff:
  "load_image io p = Inr v \<longleftrightarrow>
     (\<exists>opened gray f. image_open io p = Inr opened \<and> convert_L io opened = Inr gray \<and>
        resample io gray (64, 64) = Inr f \<and>
        v = map (\<lambda>i. f (i mod 64) (i div 64)) [0..<4096])"
proof
  assume "load_image io p = Inr v"
  then obtain opened gray f where
    "image_open io p = Inr opened" "convert_L io opened = Inr gray"
    "resample io gray (64, 64) = Inr f"
    "v = flatten (np_array \<lparr>width = 64, height = 64, pixel = f\<rparr>)"
    by (auto simp: load_image_def resize_def split: sum.splits)
  then show "\<exists>opened gray f. image_open io p = Inr opened \<and> convert_L io opened = Inr gray \<and>
        resample io gray (64, 64) = Inr f \<and>
        v = map (\<lambda>i. f (i mod 64) (i div 64)) [0..<4096]"
    unfolding flatten_np_array_64 by blast
next
  assume "\<exists>opened gray f. image_open io p = Inr opened \<and> convert_L io opened = Inr gray \<and>
        resample io gray (64, 64) = Inr f \<and>
        v = map (\<lambda>i. f (i mod 64) (i div 64)) [0..<4096]"
  then obtain opened gray f where
    "image_open io p = Inr opened" "convert_L io opened = Inr gray"
    "resample io gray (64, 64) = Inr f"
    "v = map (\<lambda>i. f (i mod 64) (i div 64)) [0..<4096]"
    by blast
  then show "load_image io p = Inr v"
    by (simp add: load_image_def resize_def flatten_np_array_64)
qed

lemma decoded_files_origin:
  assumes "v \<in> set (decoded_files io path filenames)"
  shows "\<exists>filename opened gray f. filename \<in> set filenames \<and>
           image_open io (path_join io path filename) = Inr opened \<and>
           convert_L io opened = Inr gray \<and>
           resample io gray (64, 64) = Inr f \<and>
           v = flatten (np_array \<lparr>width = 64, height = 64, pixel = f\<rparr>)"
proof -
  from assms obtain filename where f: "filename \<in> set filenames"
    and l: "load_image io (path_join io path filename) = Inr v"
    by (auto simp: decoded_files_def isl_def)
  from l obtain opened gray f where
    "image_open io (path_join io path filename) = Inr opened" "convert_L io opened = Inr gray"
    "resample io gray (64, 64) = Inr f"
    "v = flatten (np_array \<lparr>width = 64, height = 64, pixel = f\<rparr>)"
    by (auto simp: load_image_def resize_def split: sum.splits)
  with f show ?thesis by blast
qed

lemma demo_image_n1: "load_image demo_io ''./brain_tumor_dataset/no/n1.png'' = Inr demo_n1"
  by (simp add: load_image_def resize_def demo_io_def demo_n1_def)

lemma demo_image_y1: "load_image demo_io ''./brain_tumor_dataset/yes/y1.png'' = Inr demo_y1"
  by (simp add: load_image_def resize_def demo_io_def demo_y1_def)

lemma demo_image_n2: "load_image demo_io ''./brain_tumor_dataset/no/n2.png'' = Inr demo_n2"
proof -
  have "c * 2 div 64 = c div 32" for c :: nat
    by simp
  then show ?thesis
    by (simp add: load_image_def resize_def demo_io_def demo_n2_def)
qed

text \<open>
  C7. Every loaded sample comes from an entry of the listings: the entry is opened,
  converted to a single band and resampled to 64 by 64, and the sample is the 4096
  intensities of that image row after row, the pixel of row \<open>r\<close> and column \<open>c\<close> at
  position \<open>r * 64 + c\<close>. The \<^verbatim>\<open>try\<close> block returns an array for a path exactly when the
  three imaging calls succeed on it, and the array is then the one just described. The
  samples of \<^verbatim>\<open>no\<close> come before those of \<^verbatim>\<open>yes\<close>, each class in listing order.
\<close>

theorem samples_are_flat_64x64_in_listing_order:
  assumes "listdir io (path_join io folder ''no'') = Inr ns"
    and "listdir io (path_join io folder ''yes'') = Inr ys"
  shows "\<exists>X y. snd (load_images_from_folder io folder) = Inr (X, y) \<and>
           X = decoded_files io (path_join io folder ''no'') ns @
               decoded_files io (path_join io folder ''yes'') ys \<and>
           y = replicate (length (decoded_files io (path_join io folder ''no'') ns)) 0 @
               replicate (length (decoded_files io (path_join io folder ''yes'') ys)) 1 \<and>
           (\<forall>p v. load_image io p = Inr v \<longleftrightarrow>
              (\<exists>opened gray f. image_open io p = Inr opened \<and> convert_L io opened = Inr gray \<and>
                 resample io gray (64, 64) = Inr f \<and>
                 v = map (\<lambda>i. f (i mod 64) (i div 64)) [0..<4096])) \<and>
           (\<forall>v \<in> set X. length v = 4096 \<and>
              (\<exists>filename opened gray f.
                 (filename \<in> set ns \<and>
                    image_open io (path_join io (path_join io folder ''no'') filename) = Inr opened \<or>
                  filename \<in> set ys \<and>
                    image_open io (path_join io (path_join io folder ''yes'') filename) = Inr opened) \<and>
                 convert_L io opened = Inr gray \<and>
                 resample io gray (64, 64) = Inr f \<and>
                 v = flatten (np_array \<lparr>width = 64, height = 64, pixel = f\<rparr>) \<and>
                 (\<forall>r < 64. \<forall>c < 64. v ! (r * 64 + c) = f c r)))"
proof -
  let ?no = "path_join io folder ''no''" and ?yes = "path_join io folder ''yes''"
  have pix: "length v = 4096 \<and> (\<forall>r < 64. \<forall>c < 64. v ! (r * 64 + c) = f c r)"
    if "v = flatten (np_array \<lparr>width = 64, height = 64, pixel = f\<rparr>)" for v f
    using that length_flatten_np_array [of "\<lparr>width = 64, height = 64, pixel = f\<rparr>"]
      flatten_np_array_nth [of _ "\<lparr>width = 64, height = 64, pixel = f\<rparr>"]
    by simp
  have sample: "length v = 4096 \<and>
      (\<exists>filename opened gray f.
         (filename \<in> set ns \<and> image_open io (path_join io ?no filename) = Inr opened \<or>
          filename \<in> set ys \<and> image_open io (path_join io ?yes filename) = Inr opened) \<and>
         convert_L io opened = Inr gray \<and>
         resample io gray (64, 64) = Inr f \<and>
         v = flatten (np_array \<lparr>width = 64, height = 64, pixel = f\<rparr>) \<and>
         (\<forall>r < 64. \<forall>c < 64. v ! (r * 64 + c) = f c r))"
    if v: "v \<in> set (decoded_files io ?no ns @ decoded_files io ?yes ys)" for v
  proof -
    from v consider "v \<in> set (decoded_files io ?no ns)" | "v \<in> set (decoded_files io ?yes ys)"
      by auto
    then show ?thesis
    proof cases
      case 1
      from decoded_files_origin [OF 1] obtain filename opened gray f where
        o: "filename \<in> set ns" "image_open io (path_join io ?no filename) = Inr opened"
          "convert_L io opened = Inr gray" "resample io gray (64, 64) = Inr f"
          "v = flatten (np_array \<lparr>width = 64, height = 64, pixel = f\<rparr>)"
        by blast
      from pix [OF o(5)] o show ?thesis by blast
    next
      case 2
      from decoded_files_origin [OF 2] obtain filename opened gray f where
        o: "filename \<in> set ys" "image_open io (path_join io ?yes filename) = Inr opened"
          "convert_L io opened = Inr gray" "resample io gray (64, 64) = Inr f"
          "v = flatten (np_array \<lparr>width = 64, height = 64, pixel = f\<rparr>)"
        by blast
      from pix [OF o(5)] o show ?thesis by blast
    qed
  qed
  have l: "snd (load_images_from_folder io folder) =
      Inr (decoded_files io ?no ns @ decoded_files io ?yes ys,
           replicate (length (decoded_files io ?no ns)) 0 @
           replicate (length (decoded_files io ?yes ys)) 1)"
    by (simp add: load_images_from_folder_eq [OF assms])
  have decode: "\<forall>p v. load_image io p = Inr v \<longleftrightarrow>
      (\<exists>opened gray f. image_open io p = Inr opened \<and> convert_L io opened = Inr gray \<and>
         resample io gray (64, 64) = Inr f \<and>
         v = map (\<lambda>i. f (i mod 64) (i div 64)) [0..<4096])"
    by (intro allI) (rule load_image_iff)
  note samples = ballI [of "set (decoded_files io ?no ns @ decoded_files io ?yes ys)", OF sample]
  show ?thesis
    by (intro exI conjI) (rule l refl decode samples)+
qed

theorem samples_are_flat_64x64_in_listing_order_witness:
  "\<exists>X y. snd (load_images_from_folder demo_io data_folder) = Inr (X, y) \<and>
         X = [demo_n1, demo_n2, demo_y1] \<and>
         y = [0, 0, 1] \<and>
         (\<forall>v \<in> set X. length v = 4096) \<and>
         (\<exists>opened gray f.
            image_open demo_io ''./brain_tumor_dataset/yes/y1.png'' = Inr opened \<and>
            convert_L demo_io opened = Inr gray \<and>
            resample demo_io gray (64, 64) = Inr f \<and>
            demo_y1 = map (\<lambda>i. f (i mod 64) (i div 64)) [0..<4096]) \<and>
         demo_n2 ! (40 * 64 + 50) = 100 \<and> demo_n2 ! (40 * 64 + 20) = 0"
proof -
  from samples_are_flat_64x64_in_listing_order [OF demo_no demo_yes] obtain X y where
    l: "snd (load_images_from_folder demo_io data_folder) = Inr (X, y)"
    and X: "X = decoded_files demo_io (path_join demo_io data_folder ''no'') [''n1.png'', ''notes.txt'', ''n2.png''] @
               decoded_files demo_io (path_join demo_io data_folder ''yes'') [''y1.png'']"
    and y: "y = replicate (length (decoded_files demo_io (path_join demo_io data_folder ''no'')
                 [''n1.png'', ''notes.txt'', ''n2.png''])) 0 @
               replicate (length (decoded_files demo_io (path_join demo_io data_folder ''yes'') [''y1.png''])) 1"
    and decode: "\<forall>p v. load_image demo_io p = Inr v \<longleftrightarrow>
      (\<exists>opened gray f. image_open demo_io p = Inr opened \<and> convert_L demo_io opened = Inr gray \<and>
         resample demo_io gray (64, 64) = Inr f \<and>
         v = map (\<lambda>i. f (i mod 64) (i div 64)) [0..<4096])"
    and samples: "\<forall>v \<in> set X. length v = 4096 \<and>
              (\<exists>filename opened gray f.
                 (filename \<in> set [''n1.png'', ''notes.txt'', ''n2.png''] \<and>
                    image_open demo_io (path_join demo_io (path_join demo_io data_folder ''no'') filename) = Inr opened \<or>
                  filename \<in> set [''y1.png''] \<and>
                    image_open demo_io (path_join demo_io (path_join demo_io data_folder ''yes'') filename) = Inr opened) \<and>
                 convert_L demo_io opened = Inr gray \<and>
                 resample demo_io gray (64, 64) = Inr f \<and>
                 v = flatten (np_array \<lparr>width = 64, height = 64, pixel = f\<rparr>) \<and>
                 (\<forall>r < 64. \<forall>c < 64. v ! (r * 64 + c) = f c r))"
    by (elim exE conjE)
  have X': "X = [demo_n1, demo_n2, demo_y1]"
    unfolding X by (simp add: demo_decoded_no demo_decoded_yes demo_image_n1 demo_image_n2 demo_image_y1)
  have y': "y = [0, 0, 1]"
    unfolding y by (simp add: demo_decoded_no demo_decoded_yes)
  have len: "\<forall>v \<in> set X. length v = 4096"
  proof
    fix v
    assume "v \<in> set X"
    from samples [THEN bspec, OF this, THEN conjunct1] show "length v = 4096" .
  qed
  note d = decode [THEN spec, THEN spec, THEN iffD1, OF demo_image_y1]
  have "demo_n2 ! (40 * width \<lparr>width = 64, height = 64, pixel = (\<lambda>c r. if c div 32 = 1 \<and> r div 32 = 1 then 100 else 0)\<rparr> + c)
      = pixel \<lparr>width = 64, height = 64, pixel = (\<lambda>c r. if c div 32 = 1 \<and> r div 32 = 1 then (100 :: 8 word) else 0)\<rparr> c 40"
    if "c < 64" for c
    unfolding demo_n2_def by (rule flatten_np_array_nth) (use that in simp_all)
  from this [of 50] this [of 20]
  have px: "demo_n2 ! (40 * 64 + 50) = 100" "demo_n2 ! (40 * 64 + 20) = 0"
    by simp_all
  show ?thesis
    by (rule exI [of _ X], rule exI [of _ y]) (intro conjI, (rule l X' y' len d px)+)
qed

section \<open>Properties of the splitter\<close>

lemma n_test_le:
  assumes "0 < test_size" and "test_size < 1"
  shows "nat \<lceil>test_size * of_nat n\<rceil> \<le> n"
proof -
  have "test_size * of_nat n \<le> of_nat n"
    using assms by (simp add: mult_left_le_one_le)
  then have "\<lceil>test_size * of_nat n\<rceil> \<le> int n"
    by (simp add: ceiling_le_iff)
  then show ?thesis by simp
qed

lemma validate_shuffle_split_ok:
  assumes "0 < test_size" and "test_size < 1" and "nat \<lceil>test_size * of_nat n\<rceil> < n"
  shows "validate_shuffle_split n test_size =
           Inr (n - nat \<lceil>test_size * of_nat n\<rceil>, nat \<lceil>test_size * of_nat n\<rceil>)"
  using assms by (simp add: validate_shuffle_split_def Let_def)

lemma validate_shuffle_split_empty_train:
  assumes "0 < test_size" and "test_size < 1" and "n \<le> nat \<lceil>test_size * of_nat n\<rceil>"
  shows "validate_shuffle_split n test_size = Inl (ValueError ''the resulting train set will be empty'')"
  using assms by (simp add: validate_shuffle_split_def Let_def)

lemma quarter_ceiling: "nat \<lceil>(1/4 :: rat) * of_nat n\<rceil> = (n + 3) div 4"
proof -
  have "\<lceil>(1/4 :: rat) * of_nat n\<rceil> = \<lceil>of_int (int n) / (of_int 4 :: rat)\<rceil>"
    by simp
  also have "\<dots> = - (- int n div 4)"
    by (rule ceiling_divide_eq_div)
  also have "\<dots> = (int n + 3) div 4"
    by presburger
  finally show ?thesis
    by (simp add: nat_div_distrib nat_add_distrib)
qed

lemma permutation_length:
  assumes "distinct p" and "set p = {0..<n}"
  shows "length p = n"
  using assms distinct_card [of p] by simp

lemma split_indices_partition:
  assumes "distinct p" and "set p = {0..<n}" and "n_test \<le> n"
  shows "take n_test p @ take (n - n_test) (drop n_test p) = p"
  using permutation_length [OF assms(1,2)] by simp

lemma safe_indexing_ok:
  assumes "set idx \<subseteq> {0..<length a}"
  shows "safe_indexing a idx = Inr (map (\<lambda>i. a ! i) idx)"
  using assms by (auto simp: safe_indexing_def)

lemma train_test_split_ok:
  assumes p: "distinct (permutation seed (length X))" "set (permutation seed (length X)) = {0..<length X}"
    and len: "length y = length X"
    and ts: "0 < test_size" "test_size < 1"
    and nt: "nat \<lceil>test_size * of_nat (length X)\<rceil> < length X"
  defines "n_test \<equiv> nat \<lceil>test_size * of_nat (length X)\<rceil>"
  defines "test \<equiv> take n_test (permutation seed (length X))"
  defines "train \<equiv> take (length X - n_test) (drop n_test (permutation seed (length X)))"
  shows "train_test_split permutation X y test_size seed =
           Inr (map (\<lambda>i. X ! i) train, map (\<lambda>i. X ! i) test, map (\<lambda>i. y ! i) train, map (\<lambda>i. y ! i) test)"
    and "test @ train = permutation seed (length X)"
    and "length test = n_test" and "length train = length X - n_test"
proof -
  have lp: "length (permutation seed (length X)) = length X"
    by (rule permutation_length [OF p])
  have tt: "test @ train = permutation seed (length X)"
    unfolding test_def train_def using lp nt by (simp add: n_test_def)
  have sub: "set train \<subseteq> {0..<length X}" "set test \<subseteq> {0..<length X}"
    using tt p(2) by (metis Un_upper2 set_append, metis Un_upper1 set_append)
  have v: "validate_shuffle_split (length X) test_size = Inr (length X - n_test, n_test)"
    unfolding n_test_def by (rule validate_shuffle_split_ok [OF ts nt])
  have s: "shuffle_split_indices permutation seed (length X) (length X - n_test) n_test = (train, test)"
    by (simp add: shuffle_split_indices_def train_def test_def Let_def)
  show "train_test_split permutation X y test_size seed =
           Inr (map (\<lambda>i. X ! i) train, map (\<lambda>i. X ! i) test, map (\<lambda>i. y ! i) train, map (\<lambda>i. y ! i) test)"
    using sub by (simp add: train_test_split_def len v s safe_indexing_ok)
  show "length test = n_test"
    unfolding test_def using lp nt by (simp add: n_test_def)
  show "length train = length X - n_test"
    unfolding train_def using lp nt by (simp add: n_test_def)
  show "test @ train = permutation seed (length X)"
    by (rule tt)
qed

lemma reversing_permutation_distinct: "distinct (reversing_permutation seed n)"
  by (simp add: reversing_permutation_def)

lemma reversing_permutation_set: "set (reversing_permutation seed n) = {0..<n}"
  by (simp add: reversing_permutation_def)

lemma quarter_lt:
  assumes "2 \<le> n"
  shows "nat \<lceil>(1/4 :: rat) * of_nat n\<rceil> < n"
  unfolding quarter_ceiling using assms by presburger

text \<open>
  C3, as amended. For a permutation drawn by the generator, labels as many as samples, a
  \<^verbatim>\<open>test_size\<close> in (0,1) and a dataset of more than \<^verbatim>\<open>ceil(test_size * n)\<close> samples, the
  splitter returns the samples at two index lists \<open>train\<close> and \<open>test\<close> whose lengths add
  up to the dataset's, that share no index, and that cover every index. For the other
  fractions in (0,1) the splitter raises: a dataset of two samples cannot be split with
  \<^verbatim>\<open>test_size = 0.9\<close>.
\<close>

theorem split_is_partition:
  assumes "distinct (permutation seed (length X))"
    and "set (permutation seed (length X)) = {0..<length X}"
    and "length y = length X"
    and "0 < test_size" and "test_size < 1"
    and "nat \<lceil>test_size * of_nat (length X)\<rceil> < length X"
  shows "\<exists>train test.
           shuffle_split_indices permutation seed (length X)
             (length X - nat \<lceil>test_size * of_nat (length X)\<rceil>)
             (nat \<lceil>test_size * of_nat (length X)\<rceil>) = (train, test) \<and>
           train_test_split permutation X y test_size seed =
             Inr (map (\<lambda>i. X ! i) train, map (\<lambda>i. X ! i) test,
                  map (\<lambda>i. y ! i) train, map (\<lambda>i. y ! i) test) \<and>
           length train + length test = length X \<and>
           set train \<inter> set test = {} \<and>
           set train \<union> set test = {0..<length X} \<and>
           distinct train \<and> distinct test"
proof -
  let ?p = "permutation seed (length X)"
  let ?n_test = "nat \<lceil>test_size * of_nat (length X)\<rceil>"
  let ?test = "take ?n_test ?p"
  let ?train = "take (length X - ?n_test) (drop ?n_test ?p)"
  note ok = train_test_split_ok [where permutation = permutation and seed = seed and X = X, OF assms]
  have d: "distinct (?test @ ?train)" and s: "set (?test @ ?train) = {0..<length X}"
    using ok(2) assms(1,2) by simp_all
  have "shuffle_split_indices permutation seed (length X) (length X - ?n_test) ?n_test = (?train, ?test)"
    by (simp add: shuffle_split_indices_def Let_def)
  moreover have "length ?train + length ?test = length X"
    using ok(3,4) assms(6) by simp
  moreover have "set ?train \<inter> set ?test = {}" "distinct ?train" "distinct ?test"
    using d by (auto simp only: distinct_append)
  moreover have "set ?train \<union> set ?test = {0..<length X}"
    using s by (auto simp only: set_append)
  ultimately show ?thesis
    using ok(1) by blast
qed

theorem split_is_partition_witness:
  "train_test_split reversing_permutation [[10], [20], [30], [40 :: 8 word]] [0, 0, 1, 1 :: int] (1/4) 90 =
     Inr ([[30], [20], [10]], [[40]], [1, 0, 0], [1]) \<and>
   (\<exists>train test.
      shuffle_split_indices reversing_permutation 90 4 3 1 = (train, test) \<and>
      train_test_split reversing_permutation [[10], [20], [30], [40 :: 8 word]] [0, 0, 1, 1 :: int] (1/4) 90 =
        Inr (map (\<lambda>i. [[10], [20], [30], [40 :: 8 word]] ! i) train,
             map (\<lambda>i. [[10], [20], [30], [40 :: 8 word]] ! i) test,
             map (\<lambda>i. [0, 0, 1, 1 :: int] ! i) train, map (\<lambda>i. [0, 0, 1, 1 :: int] ! i) test) \<and>
      length train + length test = 4 \<and>
      set train \<inter> set test = {} \<and> set train \<union> set test = {0..<4} \<and>
      distinct train \<and> distinct test)"
proof -
  let ?X = "[[10], [20], [30], [40 :: 8 word]]"
  let ?y = "[0, 0, 1, 1 :: int]"
  have c: "nat \<lceil>(1/4 :: rat) * of_nat (length ?X)\<rceil> = 1"
    unfolding quarter_ceiling by simp
  have lt: "nat \<lceil>(1/4 :: rat) * of_nat (length ?X)\<rceil> < length ?X"
    unfolding c by simp
  have "\<lceil>1 :: rat\<rceil> = 1"
    by simp
  then have run: "train_test_split reversing_permutation ?X ?y (1/4) 90 =
      Inr ([[30], [20], [10]], [[40]], [1, 0, 0], [1])"
    by (simp add: train_test_split_def validate_shuffle_split_def shuffle_split_indices_def
        safe_indexing_def reversing_permutation_def Let_def)
  have part: "\<exists>train test.
      shuffle_split_indices reversing_permutation 90 (length ?X)
        (length ?X - nat \<lceil>(1/4 :: rat) * of_nat (length ?X)\<rceil>)
        (nat \<lceil>(1/4 :: rat) * of_nat (length ?X)\<rceil>) = (train, test) \<and>
      train_test_split reversing_permutation ?X ?y (1/4) 90 =
        Inr (map (\<lambda>i. ?X ! i) train, map (\<lambda>i. ?X ! i) test,
             map (\<lambda>i. ?y ! i) train, map (\<lambda>i. ?y ! i) test) \<and>
      length train + length test = length ?X \<and>
      set train \<inter> set test = {} \<and> set train \<union> set test = {0..<length ?X} \<and>
      distinct train \<and> distinct test"
    by (rule split_is_partition [where permutation = reversing_permutation and seed = 90
          and X = ?X and y = ?y and test_size = "1/4",
          OF reversing_permutation_distinct reversing_permutation_set _ _ _ lt])
      simp_all
  have l: "length ?X = 4"
    by simp
  show ?thesis
    using run part unfolding c l by simp
qed

theorem split_is_partition_counterexample:
  "2 \<le> length [[10], [20 :: 8 word]] \<and> (0 :: rat) < 9/10 \<and> (9/10 :: rat) < 1 \<and>
   train_test_split reversing_permutation [[10], [20 :: 8 word]] [0, 1 :: int] (9/10) 90 =
     Inl (ValueError ''the resulting train set will be empty'')"
proof -
  have "\<lceil>9/5 :: rat\<rceil> = 2"
    by (rule ceiling_unique) simp_all
  then show ?thesis
    by (simp add: train_test_split_def validate_shuffle_split_def)
qed

text \<open>
  C6, as amended. With \<^verbatim>\<open>test_size = 0.25\<close> and at least two samples the test subset
  gets \<^verbatim>\<open>ceil(0.25 * n)\<close> samples and the training subset the remainder. That is the
  ceiling and not the nearest integer: of five samples two go to the test subset.
\<close>

theorem test_subset_size_is_ceiling:
  assumes "distinct (permutation 90 (length X))"
    and "set (permutation 90 (length X)) = {0..<length X}"
    and "length y = length X"
    and "2 \<le> length X"
  shows "\<exists>X_train X_test y_train y_test.
           train_test_split permutation X y (1/4) 90 = Inr (X_train, X_test, y_train, y_test) \<and>
           length X_test = nat \<lceil>(1/4 :: rat) * of_nat (length X)\<rceil> \<and>
           length X_train = length X - length X_test \<and>
           length y_test = length X_test \<and> length y_train = length X_train"
proof -
  have q: "(0 :: rat) < 1/4" "(1/4 :: rat) < 1"
    by simp_all
  note ok = train_test_split_ok [where permutation = permutation and seed = 90 and X = X,
      OF assms(1-3) q quarter_lt [OF assms(4)]]
  show ?thesis
    using ok(3,4) by (simp add: ok(1))
qed

theorem test_subset_size_is_ceiling_witness:
  "2 \<le> length [[10], [20], [30], [40], [50 :: 8 word]] \<and>
   (\<exists>X_train X_test y_train y_test.
     train_test_split reversing_permutation [[10], [20], [30], [40], [50 :: 8 word]] [0, 0, 0, 1, 1 :: int] (1/4) 90 =
       Inr (X_train, X_test, y_train, y_test) \<and>
     length X_test = 2 \<and> length X_train = 3 \<and> length y_test = 2 \<and> length y_train = 3)"
proof -
  let ?X = "[[10], [20], [30], [40], [50 :: 8 word]]"
  let ?y = "[0, 0, 0, 1, 1 :: int]"
  have c: "nat \<lceil>(1/4 :: rat) * of_nat (length ?X)\<rceil> = 2"
    unfolding quarter_ceiling by simp
  have two: "2 \<le> length ?X"
    by simp
  have "\<exists>X_train X_test y_train y_test.
      train_test_split reversing_permutation ?X ?y (1/4) 90 = Inr (X_train, X_test, y_train, y_test) \<and>
      length X_test = nat \<lceil>(1/4 :: rat) * of_nat (length ?X)\<rceil> \<and>
      length X_train = length ?X - length X_test \<and>
      length y_test = length X_test \<and> length y_train = length X_train"
    by (rule test_subset_size_is_ceiling [where permutation = reversing_permutation
          and X = ?X and y = ?y,
          OF reversing_permutation_distinct reversing_permutation_set _ two])
      simp
  then show ?thesis
    unfolding c by auto
qed

theorem test_subset_size_round_counterexample:
  "train_test_split reversing_permutation [[10], [20], [30], [40], [50 :: 8 word]] [0, 0, 0, 1, 1 :: int] (1/4) 90 =
     Inr ([[30], [20], [10]], [[50], [40]], [0, 0, 0], [1, 1]) \<and>
   length [[50], [40 :: 8 word]] \<noteq> nat (round ((1/4 :: rat) * of_nat (length [[10], [20], [30], [40], [50 :: 8 word]])))"
proof -
  have "\<lceil>5/4 :: rat\<rceil> = 2"
    by (rule ceiling_unique) simp_all
  then have c: "nat \<lceil>(1/4 :: rat) * 5\<rceil> = 2"
    by simp
  have "\<lfloor>7/4 :: rat\<rfloor> = 1"
    by (rule floor_unique) simp_all
  then have r: "round ((1/4 :: rat) * 5) = 1"
    by (simp add: round_def)
  show ?thesis
    using c r
    by (simp add: train_test_split_def validate_shuffle_split_def shuffle_split_indices_def
        safe_indexing_def reversing_permutation_def Let_def)
qed

text \<open>
  C8. With \<^verbatim>\<open>test_size = 0.25\<close> the splitter raises \<^verbatim>\<open>ValueError\<close> on every dataset
  of fewer than two samples, whatever the labels, the seed and the generator.
\<close>

theorem split_fails_below_two_samples:
  assumes "length X < 2"
  shows "\<exists>msg. train_test_split permutation X y (1/4) random_state = Inl (ValueError msg)"
proof (cases "length X = length y")
  case False
  then show ?thesis by (auto simp: train_test_split_def)
next
  case True
  have "length X \<le> nat \<lceil>(1/4 :: rat) * of_nat (length X)\<rceil>"
    unfolding quarter_ceiling using assms by presburger
  then have "validate_shuffle_split (length X) (1/4) =
      Inl (ValueError ''the resulting train set will be empty'')"
    by (intro validate_shuffle_split_empty_train) simp_all
  with True show ?thesis by (auto simp: train_test_split_def)
qed

theorem split_fails_below_two_samples_witness:
  "length [[10 :: 8 word]] < 2 \<and>
   (\<exists>msg. train_test_split reversing_permutation [[10 :: 8 word]] [0 :: int] (1/4) 90 = Inl (ValueError msg))"
  using split_fails_below_two_samples [of "[[10 :: 8 word]]" reversing_permutation "[0 :: int]" 90]
  by simp

section \<open>Properties of the scaler and of the cells\<close>

lemma check_array_Inr:
  assumes "check_array num X = Inr Xf"
  shows "Xf = map (map (to_float num)) X"
  using assms by (simp add: check_array_def split: if_splits)

lemma check_array_ok:
  assumes "X \<noteq> []" and "list_all (\<lambda>row. length row = w) X" and "0 < w"
  shows "check_array num X = Inr (map (map (to_float num)) X)"
proof -
  have "hd X \<in> set X" using assms(1) by simp
  then have "length (hd X) = w" using assms(2) by (simp add: list_all_iff)
  then show ?thesis using assms by (auto simp: check_array_def)
qed

lemma scaler_transform_Inr:
  assumes "scaler_transform num scaler X = Inr A"
  shows "A = standardize num scaler X"
proof -
  from assms obtain Xf where c: "check_array num X = Inr Xf"
    and A: "A = map (\<lambda>row. map (\<lambda>j. (row ! j - scaler_mean scaler ! j) / scaler_scale scaler ! j)
                                   [0..<length row]) Xf"
    unfolding scaler_transform_def
    by (cases "check_array num X") (simp_all split: if_splits)
  have Xf: "Xf = map (map (to_float num)) X"
    by (rule check_array_Inr [OF c])
  show ?thesis
    unfolding A Xf standardize_def
    by (simp add: comp_def cong: map_cong)
qed

lemma scaler_fit_Inr:
  assumes "scaler_fit num X = Inr scaler"
  shows "scaler = \<lparr>scaler_mean = map (col_mean num) (columns (map (map (to_float num)) X)),
                   scaler_scale = map (\<lambda>c. handle_zeros_in_scale (col_std num c))
                                    (columns (map (map (to_float num)) X))\<rparr>"
proof -
  from assms obtain Xf where c: "check_array num X = Inr Xf"
    and s: "scaler = \<lparr>scaler_mean = map (col_mean num) (columns Xf),
                       scaler_scale = map (\<lambda>c. handle_zeros_in_scale (col_std num c)) (columns Xf)\<rparr>"
    unfolding scaler_fit_def by (cases "check_array num X") simp_all
  show ?thesis
    unfolding s check_array_Inr [OF c] by (rule refl)
qed

lemma feature_scaling_Inr:
  assumes "feature_scaling num X_train X_test = Inr (scaler, A, B)"
  shows "scaler_fit num X_train = Inr scaler"
    and "A = standardize num scaler X_train"
    and "B = standardize num scaler X_test"
proof -
  from assms obtain A' where ft: "scaler_fit_transform num X_train = Inr (scaler, A')"
    and t2: "scaler_transform num scaler X_test = Inr B" and AA: "A' = A"
    unfolding feature_scaling_def
    by (cases "scaler_fit_transform num X_train") (auto split: sum.splits)
  from ft have f: "scaler_fit num X_train = Inr scaler" and t1: "scaler_transform num scaler X_train = Inr A'"
    unfolding scaler_fit_transform_def
    by (cases "scaler_fit num X_train"; auto split: sum.splits)+
  show "scaler_fit num X_train = Inr scaler" by (rule f)
  show "A = standardize num scaler X_train"
    using scaler_transform_Inr [OF t1] AA by simp
  show "B = standardize num scaler X_test"
    by (rule scaler_transform_Inr [OF t2])
qed

lemma feature_scaling_ok:
  assumes "X_train \<noteq> []" and "X_test \<noteq> []"
    and "list_all (\<lambda>row. length row = w) X_train" and "list_all (\<lambda>row. length row = w) X_test"
    and "0 < w"
  shows "\<exists>scaler. feature_scaling num X_train X_test =
           Inr (scaler, standardize num scaler X_train, standardize num scaler X_test)"
proof -
  have hd1: "length (hd X_train) = w" using assms(1,3) by (simp add: list_all_iff)
  have hd2: "length (hd X_test) = w" using assms(2,4) by (simp add: list_all_iff)
  have c1: "check_array num X_train = Inr (map (map (to_float num)) X_train)"
    by (rule check_array_ok [OF assms(1,3,5)])
  have c2: "check_array num X_test = Inr (map (map (to_float num)) X_test)"
    by (rule check_array_ok [OF assms(2,4,5)])
  define sc where "sc = \<lparr>scaler_mean = map (col_mean num) (columns (map (map (to_float num)) X_train)),
               scaler_scale = map (\<lambda>c. handle_zeros_in_scale (col_std num c))
                                (columns (map (map (to_float num)) X_train))\<rparr>"
  have f: "scaler_fit num X_train = Inr sc"
    by (simp add: scaler_fit_def c1 sc_def)
  have w1: "length (scaler_mean sc) = w"
    using assms(1) hd1 by (simp add: columns_def hd_map sc_def)
  have t1: "scaler_transform num sc X_train = Inr (standardize num sc X_train)"
    using assms(1) hd1 w1
    by (simp add: scaler_transform_def c1 standardize_def hd_map comp_def cong: map_cong)
  have t2: "scaler_transform num sc X_test = Inr (standardize num sc X_test)"
    using assms(2) hd2 w1
    by (simp add: scaler_transform_def c2 standardize_def hd_map comp_def cong: map_cong)
  show ?thesis
    by (rule exI [of _ sc]) (simp add: feature_scaling_def scaler_fit_transform_def f t1 t2)
qed

lemma rnn_stages_eq: "rnn_stages io num permutation = svm_stages io num permutation"
  by (simp add: rnn_stages_def svm_stages_def rnn_loader_eq)

lemma svm_stages_Inr:
  assumes "snd (svm_stages io num permutation) = Inr vars"
  shows "\<exists>out X_train X_test.
           load_images_from_folder io data_folder = (out, Inr (v_X vars, v_y vars)) \<and>
           train_test_split permutation (v_X vars) (v_y vars) (1/4) 90 =
             Inr (X_train, X_test, v_y_train vars, v_y_test vars) \<and>
           feature_scaling num X_train X_test = Inr (v_scaler vars, v_X_train vars, v_X_test vars)"
proof -
  obtain out r where l: "load_images_from_folder io data_folder = (out, r)"
    by (cases "load_images_from_folder io data_folder") auto
  from assms l obtain X y where r: "r = Inr (X, y)"
    by (cases r) (auto simp: svm_stages_def)
  from assms l r obtain X_train X_test y_train y_test where
    s: "train_test_split permutation X y (1/4) 90 = Inr (X_train, X_test, y_train, y_test)"
    by (cases "train_test_split permutation X y (1/4) 90") (auto simp: svm_stages_def)
  from assms l r s obtain scaler A B where
    f: "feature_scaling num X_train X_test = Inr (scaler, A, B)"
    by (cases "feature_scaling num X_train X_test") (auto simp: svm_stages_def)
  from assms l r s f have
    "vars = \<lparr>v_X = X, v_y = y, v_X_train = A, v_X_test = B,
             v_y_train = y_train, v_y_test = y_test, v_scaler = scaler\<rparr>"
    by (simp add: svm_stages_def)
  with l r s f show ?thesis by simp
qed

lemma decoded_files_length:
  assumes "v \<in> set (decoded_files io path filenames)"
  shows "length v = 4096"
proof -
  from assms obtain f where "load_image io (path_join io path f) = Inr v"
    by (auto simp: decoded_files_def isl_def)
  from load_image_shape [OF this] obtain img where
    "width img = 64" "height img = 64" "v = flatten (np_array img)"
    by blast
  then show ?thesis
    using length_flatten_np_array [of img] by simp
qed

lemma svm_stages_ok:
  fixes num :: "('a::{zero,one,minus,inverse}) numerics"
  assumes no: "listdir io (path_join io data_folder ''no'') = Inr ns"
    and yes: "listdir io (path_join io data_folder ''yes'') = Inr ys"
  defines "X \<equiv> decoded_files io (path_join io data_folder ''no'') ns @
                decoded_files io (path_join io data_folder ''yes'') ys"
  assumes p: "distinct (permutation 90 (length X))" "set (permutation 90 (length X)) = {0..<length X}"
    and two: "2 \<le> length X"
  shows "\<exists>vars. svm_stages io num permutation =
           (failure_lines io (path_join io data_folder ''no'') ns @
            failure_lines io (path_join io data_folder ''yes'') ys, Inr vars) \<and> v_X vars = X"
proof -
  define y :: "int list" where
    "y = replicate (length (decoded_files io (path_join io data_folder ''no'') ns)) 0 @
         replicate (length (decoded_files io (path_join io data_folder ''yes'') ys)) 1"
  define out where "out = failure_lines io (path_join io data_folder ''no'') ns @
            failure_lines io (path_join io data_folder ''yes'') ys"
  have l: "load_images_from_folder io data_folder = (out, Inr (X, y))"
    unfolding X_def y_def out_def by (rule load_images_from_folder_eq [OF no yes])
  have len: "length y = length X"
    by (simp add: X_def y_def)
  have rows: "\<forall>v \<in> set X. length v = 4096"
    unfolding X_def using decoded_files_length by auto
  define n_test where "n_test = nat \<lceil>(1/4 :: rat) * of_nat (length X)\<rceil>"
  define test where "test = take n_test (permutation 90 (length X))"
  define train where "train = take (length X - n_test) (drop n_test (permutation 90 (length X)))"
  have q: "(0 :: rat) < 1/4" "(1/4 :: rat) < 1"
    by simp_all
  note ok = train_test_split_ok [where permutation = permutation and seed = 90 and X = X and y = y,
      OF p len q quarter_lt [OF two], folded n_test_def, folded test_def train_def]
  have nt: "0 < n_test" "n_test < length X"
    unfolding n_test_def quarter_ceiling using two by presburger+
  have ne: "train \<noteq> []" "test \<noteq> []"
    using ok(3,4) nt by auto
  have "set (test @ train) = {0..<length X}"
    unfolding ok(2) by (rule p(2))
  then have idx: "\<forall>i \<in> set train. i < length X" "\<forall>i \<in> set test. i < length X"
    by auto
  have r1: "list_all (\<lambda>row. length row = 4096) (map (\<lambda>i. X ! i) train)"
    using idx(1) rows by (simp add: list_all_iff)
  have r2: "list_all (\<lambda>row. length row = 4096) (map (\<lambda>i. X ! i) test)"
    using idx(2) rows by (simp add: list_all_iff)
  from feature_scaling_ok [where num = num, OF _ _ r1 r2] ne
  obtain scaler where
    f: "feature_scaling num (map (\<lambda>i. X ! i) train) (map (\<lambda>i. X ! i) test) =
          Inr (scaler, standardize num scaler (map (\<lambda>i. X ! i) train),
               standardize num scaler (map (\<lambda>i. X ! i) test))"
    by auto
  show ?thesis
    by (simp add: svm_stages_def l ok(1) f out_def)
qed

lemma demo_decoded_count:
  "length (decoded_files demo_io (path_join demo_io data_folder ''no'') [''n1.png'', ''notes.txt'', ''n2.png''] @
           decoded_files demo_io (path_join demo_io data_folder ''yes'') [''y1.png'']) = 3"
  by (simp add: demo_decoded_no demo_decoded_yes)

text \<open>
  An example in exact arithmetic: two training rows, one test row; the second column is
  constant in the training subset, so its standard deviation is 0 and its scale is 1.
\<close>

lemma feature_scaling_example:
  "feature_scaling exact_numerics [[0, 10], [4, 10]] [[2, 7]] =
     Inr (\<lparr>scaler_mean = [2, 10], scaler_scale = [2, 1]\<rparr>, [[-1, 0], [1, 0]], [[0, -3]])"
proof -
  have c1: "check_array exact_numerics [[0, 10], [4, 10]] = Inr [[0, 10], [4, 10]]"
    by (simp add: check_array_def exact_numerics_def)
  have c2: "check_array exact_numerics [[2, 7]] = Inr [[2, 7]]"
    by (simp add: check_array_def exact_numerics_def)
  have cols: "columns [[0, 10], [4, 10 :: real]] = [[0, 4], [10, 10]]"
    by (simp add: columns_def upt_rec)
  have s4: "sqrt 4 = 2"
    by simp
  have f: "scaler_fit exact_numerics [[0, 10], [4, 10]] = Inr \<lparr>scaler_mean = [2, 10], scaler_scale = [2, 1]\<rparr>"
  proof -
    have m: "col_mean exact_numerics [0, 4] = 2" "col_mean exact_numerics [10, 10] = 10"
      by (simp_all add: exact_numerics_def)
    have s1: "col_std exact_numerics [0, 4] = 2"
      by (simp add: exact_numerics_def Let_def)
    have s2: "col_std exact_numerics [10, 10] = 0"
      by (simp add: exact_numerics_def Let_def)
    show ?thesis
      by (simp add: scaler_fit_def c1 cols m s1 s2 handle_zeros_in_scale_def)
  qed
  have t1: "scaler_transform exact_numerics \<lparr>scaler_mean = [2, 10], scaler_scale = [2, 1]\<rparr> [[0, 10], [4, 10]]
      = Inr [[-1, 0], [1, 0]]"
    by (simp add: scaler_transform_def c1 upt_rec)
  have t2: "scaler_transform exact_numerics \<lparr>scaler_mean = [2, 10], scaler_scale = [2, 1]\<rparr> [[2, 7]]
      = Inr [[0, -3]]"
    by (simp add: scaler_transform_def c2 upt_rec)
  show ?thesis
    by (simp add: feature_scaling_def scaler_fit_transform_def f t1 t2)
qed

text \<open>
  C1, as amended. In every run of either notebook that reaches the end of the scaling
  stage, the scaler is the one \<^verbatim>\<open>fit\<close> computes from the training subset of the split
  alone: whatever array is transformed second, fitting on the same training subset gives
  the same scaler. Its mean is the mean of each training column; its scale is the
  standard deviation of each training column, or 1 where that standard deviation is 0.
  The new \<^verbatim>\<open>X_train\<close> and \<^verbatim>\<open>X_test\<close> are the training and the test subset with
  \<open>(value - mean[col]) / scale[col]\<close> at every row and column.
\<close>

theorem scaler_fit_on_train_only:
  assumes "snd (svm_stages io num permutation) = Inr vars \<or>
           snd (rnn_stages io num permutation) = Inr vars"
  shows "\<exists>X_train X_test.
           train_test_split permutation (v_X vars) (v_y vars) (1/4) 90 =
             Inr (X_train, X_test, v_y_train vars, v_y_test vars) \<and>
           scaler_fit num X_train = Inr (v_scaler vars) \<and>
           scaler_mean (v_scaler vars) =
             map (col_mean num) (columns (map (map (to_float num)) X_train)) \<and>
           scaler_scale (v_scaler vars) =
             map (\<lambda>c. if col_std num c = 0 then 1 else col_std num c)
               (columns (map (map (to_float num)) X_train)) \<and>
           v_X_train vars = standardize num (v_scaler vars) X_train \<and>
           v_X_test vars = standardize num (v_scaler vars) X_test \<and>
           (\<forall>X_other r. feature_scaling num X_train X_other = Inr r \<longrightarrow> fst r = v_scaler vars)"
proof -
  from assms have "snd (svm_stages io num permutation) = Inr vars"
    by (simp add: rnn_stages_eq)
  from svm_stages_Inr [OF this] obtain X_train X_test where
    s: "train_test_split permutation (v_X vars) (v_y vars) (1/4) 90 =
          Inr (X_train, X_test, v_y_train vars, v_y_test vars)"
    and f: "feature_scaling num X_train X_test = Inr (v_scaler vars, v_X_train vars, v_X_test vars)"
    by blast
  note fs = feature_scaling_Inr [OF f]
  have m: "scaler_mean (v_scaler vars) =
      map (col_mean num) (columns (map (map (to_float num)) X_train))"
    by (subst scaler_fit_Inr [OF fs(1)]) simp
  have sc: "scaler_scale (v_scaler vars) =
      map (\<lambda>c. if col_std num c = 0 then 1 else col_std num c)
        (columns (map (map (to_float num)) X_train))"
    by (subst scaler_fit_Inr [OF fs(1)]) (simp add: handle_zeros_in_scale_def)
  have "fst r = v_scaler vars" if "feature_scaling num X_train X_other = Inr r" for X_other r
  proof -
    obtain scaler A B where r: "r = (scaler, A, B)"
      by (cases r) auto
    from feature_scaling_Inr(1) [OF that [unfolded r]] fs(1) show ?thesis
      by (simp add: r)
  qed
  with s fs m sc show ?thesis by blast
qed

theorem scaler_fit_on_train_only_witness:
  "\<exists>vars. snd (svm_stages demo_io exact_numerics reversing_permutation) = Inr vars \<and>
     (\<exists>X_train X_test.
        train_test_split reversing_permutation (v_X vars) (v_y vars) (1/4) 90 =
          Inr (X_train, X_test, v_y_train vars, v_y_test vars) \<and>
        scaler_fit exact_numerics X_train = Inr (v_scaler vars) \<and>
        scaler_mean (v_scaler vars) =
          map (col_mean exact_numerics) (columns (map (map (to_float exact_numerics)) X_train)) \<and>
        scaler_scale (v_scaler vars) =
          map (\<lambda>c. if col_std exact_numerics c = 0 then 1 else col_std exact_numerics c)
            (columns (map (map (to_float exact_numerics)) X_train)) \<and>
        v_X_train vars = standardize exact_numerics (v_scaler vars) X_train \<and>
        v_X_test vars = standardize exact_numerics (v_scaler vars) X_test \<and>
        (\<forall>X_other r. feature_scaling exact_numerics X_train X_other = Inr r \<longrightarrow> fst r = v_scaler vars))"
proof -
  have two: "2 \<le> length (decoded_files demo_io (path_join demo_io data_folder ''no'') [''n1.png'', ''notes.txt'', ''n2.png''] @
           decoded_files demo_io (path_join demo_io data_folder ''yes'') [''y1.png''])"
    unfolding demo_decoded_count by simp
  from svm_stages_ok [where num = exact_numerics and permutation = reversing_permutation,
      OF demo_no demo_yes reversing_permutation_distinct reversing_permutation_set two]
  obtain vars where v: "snd (svm_stages demo_io exact_numerics reversing_permutation) = Inr vars"
    by auto
  from scaler_fit_on_train_only [OF disjI1 [OF v]] v show ?thesis
    by blast
qed

lemma image_first_pixel:
  "flatten (np_array \<lparr>width = 64, height = 64, pixel = f\<rparr>) ! 0 = f 0 0"
  using flatten_np_array_nth [of 0 "\<lparr>width = 64, height = 64, pixel = f\<rparr>" 0]
  by simp

lemma image_length:
  "length (flatten (np_array \<lparr>width = 64, height = 64, pixel = f\<rparr>)) = 4096"
  using length_flatten_np_array [of "\<lparr>width = 64, height = 64, pixel = f\<rparr>"]
  by simp

lemma demo_lengths: "length demo_n1 = 4096" "length demo_n2 = 4096" "length demo_y1 = 4096"
  by (simp_all add: demo_n1_def demo_n2_def demo_y1_def image_length)

lemma demo_first_pixels: "demo_n1 ! 0 = 0" "demo_n2 ! 0 = 0" "demo_y1 ! 0 = 255"
  by (simp_all add: demo_n1_def demo_n2_def demo_y1_def image_first_pixel)

lemma demo_load:
  "load_images_from_folder demo_io data_folder =
     ([''Error loading image ./brain_tumor_dataset/no/notes.txt: cannot identify image file''],
      Inr ([demo_n1, demo_n2, demo_y1], [0, 0, 1]))"
  unfolding load_images_from_folder_eq [OF demo_no demo_yes]
  by (simp add: demo_decoded_no demo_decoded_yes demo_failures_no demo_failures_yes
      demo_image_n1 demo_image_n2 demo_image_y1)

lemma demo_split:
  "train_test_split reversing_permutation [a, b, c] [0, 0, 1 :: int] (1/4) 90 =
     Inr ([b, a], [c], [0, 0], [1])"
proof -
  have "\<lceil>3/4 :: rat\<rceil> = 1"
    by (rule ceiling_unique) simp_all
  then show ?thesis
    by (simp add: train_test_split_def validate_shuffle_split_def shuffle_split_indices_def
        safe_indexing_def reversing_permutation_def Let_def)
qed

lemma demo_scaling:
  "\<exists>scaler. feature_scaling exact_numerics [demo_n2, demo_n1] [demo_y1] =
      Inr (scaler, standardize exact_numerics scaler [demo_n2, demo_n1],
           standardize exact_numerics scaler [demo_y1])"
  by (rule feature_scaling_ok [where w = 4096]) (simp_all add: demo_lengths)

lemma demo_run:
  "\<exists>scaler.
     svm_stages demo_io exact_numerics reversing_permutation =
       ([''Error loading image ./brain_tumor_dataset/no/notes.txt: cannot identify image file''],
        Inr \<lparr>v_X = [demo_n1, demo_n2, demo_y1], v_y = [0, 0, 1],
             v_X_train = standardize exact_numerics scaler [demo_n2, demo_n1],
             v_X_test = standardize exact_numerics scaler [demo_y1],
             v_y_train = [0, 0], v_y_test = [1], v_scaler = scaler\<rparr>) \<and>
     scaler_fit exact_numerics [demo_n2, demo_n1] = Inr scaler"
proof -
  from demo_scaling obtain scaler where
    f: "feature_scaling exact_numerics [demo_n2, demo_n1] [demo_y1] =
      Inr (scaler, standardize exact_numerics scaler [demo_n2, demo_n1],
           standardize exact_numerics scaler [demo_y1])"
    by blast
  have "svm_stages demo_io exact_numerics reversing_permutation =
       ([''Error loading image ./brain_tumor_dataset/no/notes.txt: cannot identify image file''],
        Inr \<lparr>v_X = [demo_n1, demo_n2, demo_y1], v_y = [0, 0, 1],
             v_X_train = standardize exact_numerics scaler [demo_n2, demo_n1],
             v_X_test = standardize exact_numerics scaler [demo_y1],
             v_y_train = [0, 0], v_y_test = [1], v_scaler = scaler\<rparr>)"
    by (simp add: svm_stages_def demo_load demo_split f)
  with feature_scaling_Inr(1) [OF f] show ?thesis
    by blast
qed

lemma columns_length: "length (columns X) = length (hd X)"
  by (simp add: columns_def)

lemma first_column:
  assumes "0 < length (hd X)"
  shows "columns X ! 0 = map (\<lambda>row. row ! 0) X"
  using assms by (simp add: columns_def)

lemma demo_first_column:
  "columns (map (map (to_float exact_numerics)) [demo_n2, demo_n1]) ! 0 = [0, 0]"
proof -
  have "columns (map (map (to_float exact_numerics)) [demo_n2, demo_n1]) ! 0 =
      map (\<lambda>row. row ! 0) (map (map (to_float exact_numerics)) [demo_n2, demo_n1])"
    by (rule first_column) (simp add: demo_lengths)
  also have "\<dots> = [to_float exact_numerics (demo_n2 ! 0), to_float exact_numerics (demo_n1 ! 0)]"
    by (simp add: demo_lengths)
  also have "\<dots> = [0, 0]"
    by (simp add: demo_first_pixels exact_numerics_def)
  finally show ?thesis .
qed

lemma demo_scaler_first:
  assumes "scaler_fit exact_numerics [demo_n2, demo_n1] = Inr scaler"
  shows "scaler_mean scaler ! 0 = 0" and "scaler_scale scaler ! 0 = 1"
proof -
  let ?cols = "columns (map (map (to_float exact_numerics)) [demo_n2, demo_n1])"
  have len: "0 < length ?cols"
    by (simp add: columns_length demo_lengths)
  have m: "col_mean exact_numerics [0, 0] = 0" and s: "col_std exact_numerics [0, 0] = 0"
    by (simp_all add: exact_numerics_def)
  note sc = scaler_fit_Inr [OF assms]
  have "scaler_mean scaler ! 0 = col_mean exact_numerics (?cols ! 0)"
    by (subst sc) (simp only: standard_scaler.simps nth_map [OF len])
  then show "scaler_mean scaler ! 0 = 0"
    by (simp only: demo_first_column m)
  have "scaler_scale scaler ! 0 = handle_zeros_in_scale (col_std exact_numerics (?cols ! 0))"
    by (subst sc) (simp only: standard_scaler.simps nth_map [OF len])
  then show "scaler_scale scaler ! 0 = 1"
    by (simp only: demo_first_column s handle_zeros_in_scale_def) simp
qed

lemma demo_test_first:
  assumes "scaler_mean scaler ! 0 = 0" and "scaler_scale scaler ! 0 = 1"
  shows "standardize exact_numerics scaler [demo_y1] ! 0 ! 0 = 255"
proof -
  have v: "to_float exact_numerics (demo_y1 ! 0) = 255"
    by (simp add: demo_first_pixels exact_numerics_def)
  have "standardize exact_numerics scaler [demo_y1] ! 0 ! 0 =
      (to_float exact_numerics (demo_y1 ! 0) - scaler_mean scaler ! 0) / scaler_scale scaler ! 0"
    by (simp add: standardize_def demo_lengths)
  then show ?thesis
    by (simp add: v assms)
qed

text \<open>
  The run on the small world: two training images whose first pixel is black, and a white
  test image. The first training column has standard deviation 0, so the scaler divides
  by 1 there and the first test value becomes 255; dividing by the standard deviation is
  not what the transform does.
\<close>

theorem scaler_zero_variance_counterexample:
  "\<exists>vars X_train X_test.
     snd (svm_stages demo_io exact_numerics reversing_permutation) = Inr vars \<and>
     train_test_split reversing_permutation (v_X vars) (v_y vars) (1/4) 90 =
       Inr (X_train, X_test, v_y_train vars, v_y_test vars) \<and>
     length X_train = 2 \<and>
     col_std exact_numerics (columns (map (map (to_float exact_numerics)) X_train) ! 0) = 0 \<and>
     to_float exact_numerics (X_test ! 0 ! 0) - scaler_mean (v_scaler vars) ! 0 = 255 \<and>
     v_X_test vars ! 0 ! 0 = 255 \<and>
     v_X_test vars ! 0 ! 0 \<noteq>
       (to_float exact_numerics (X_test ! 0 ! 0) - scaler_mean (v_scaler vars) ! 0) /
       col_std exact_numerics (columns (map (map (to_float exact_numerics)) X_train) ! 0)"
proof -
  from demo_run obtain scaler where
    run: "svm_stages demo_io exact_numerics reversing_permutation =
       ([''Error loading image ./brain_tumor_dataset/no/notes.txt: cannot identify image file''],
        Inr \<lparr>v_X = [demo_n1, demo_n2, demo_y1], v_y = [0, 0, 1],
             v_X_train = standardize exact_numerics scaler [demo_n2, demo_n1],
             v_X_test = standardize exact_numerics scaler [demo_y1],
             v_y_train = [0, 0], v_y_test = [1], v_scaler = scaler\<rparr>)"
    and fit: "scaler_fit exact_numerics [demo_n2, demo_n1] = Inr scaler"
    by blast
  define vars where "vars = \<lparr>v_X = [demo_n1, demo_n2, demo_y1], v_y = [0, 0, 1],
             v_X_train = standardize exact_numerics scaler [demo_n2, demo_n1],
             v_X_test = standardize exact_numerics scaler [demo_y1],
             v_y_train = [0, 0], v_y_test = [1 :: int], v_scaler = scaler\<rparr>"
  note ms = demo_scaler_first [OF fit]
  have 1: "snd (svm_stages demo_io exact_numerics reversing_permutation) = Inr vars"
    by (simp add: run vars_def)
  have 2: "train_test_split reversing_permutation (v_X vars) (v_y vars) (1/4) 90 =
       Inr ([demo_n2, demo_n1], [demo_y1], v_y_train vars, v_y_test vars)"
    by (simp add: vars_def demo_split)
  have 3: "col_std exact_numerics (columns (map (map (to_float exact_numerics)) [demo_n2, demo_n1]) ! 0) = 0"
    by (simp only: demo_first_column) (simp add: exact_numerics_def)
  have 4: "to_float exact_numerics ([demo_y1] ! 0 ! 0) - scaler_mean (v_scaler vars) ! 0 = 255"
    by (simp add: vars_def ms demo_first_pixels exact_numerics_def)
  have 5: "v_X_test vars ! 0 ! 0 = 255"
    by (simp add: vars_def demo_test_first [OF ms])
  have 6: "v_X_test vars ! 0 ! 0 \<noteq>
       (to_float exact_numerics ([demo_y1] ! 0 ! 0) - scaler_mean (v_scaler vars) ! 0) /
       col_std exact_numerics (columns (map (map (to_float exact_numerics)) [demo_n2, demo_n1]) ! 0)"
    unfolding 3 4 5 by simp
  have 7: "length [demo_n2, demo_n1] = 2"
    by simp
  from 1 2 3 4 5 6 7 show ?thesis
    by blast
qed

text \<open>
  C9. The two notebooks agree on their first three stages: the loaders return the same
  output, dataset and exception on every folder, and the cells up to the scaler leave the
  same variables or raise the same exception.
\<close>

theorem notebooks_share_first_three_stages:
  "rnn_load_images_from_folder io folder = load_images_from_folder io folder \<and>
   rnn_stages io num permutation = svm_stages io num permutation"
  by (simp add: rnn_loader_eq rnn_stages_def svm_stages_def)

text \<open>
  C10. When a category subfolder cannot be listed, the exception of \<^verbatim>\<open>os.listdir\<close> leaves
  the loader, in either notebook, and the preprocessing cell ends with it.
\<close>

theorem listing_failure_aborts_run:
  assumes "listdir io (path_join io folder ''no'') = Inl e \<or>
           (\<exists>ns. listdir io (path_join io folder ''no'') = Inr ns \<and>
                 listdir io (path_join io folder ''yes'') = Inl e)"
  shows "snd (load_images_from_folder io folder) = Inl e \<and>
         snd (rnn_load_images_from_folder io folder) = Inl e \<and>
         (folder = data_folder \<longrightarrow>
            snd (svm_cell io num permutation) = Inl e \<and> snd (rnn_cell io num permutation) = Inl e)"
proof -
  have l: "snd (load_images_from_folder io folder) = Inl e"
    using assms load_no_listing_fails [of io folder e] load_yes_listing_fails [of io folder _ e]
    by auto
  have "snd (svm_stages io num permutation) = Inl e" if "folder = data_folder"
    using l that by (cases "load_images_from_folder io data_folder") (auto simp: svm_stages_def)
  then have "snd (svm_cell io num permutation) = Inl e \<and> snd (rnn_cell io num permutation) = Inl e"
    if "folder = data_folder"
    using that
    by (cases "svm_stages io num permutation") (auto simp: svm_cell_def rnn_cell_def rnn_stages_eq)
  with l show ?thesis
    by (simp add: rnn_loader_eq)
qed

theorem listing_failure_aborts_run_witness:
  "snd (load_images_from_folder demo_io_without_yes data_folder) =
     Inl (PyExc ''FileNotFoundError'' ''No such file or directory'') \<and>
   snd (rnn_load_images_from_folder demo_io_without_yes data_folder) =
     Inl (PyExc ''FileNotFoundError'' ''No such file or directory'') \<and>
   snd (svm_cell demo_io_without_yes exact_numerics reversing_permutation) =
     Inl (PyExc ''FileNotFoundError'' ''No such file or directory'') \<and>
   snd (rnn_cell demo_io_without_yes exact_numerics reversing_permutation) =
     Inl (PyExc ''FileNotFoundError'' ''No such file or directory'')"
proof -
  have "listdir demo_io_without_yes (path_join demo_io_without_yes data_folder ''no'') =
          Inr [''n1.png'', ''notes.txt'', ''n2.png''] \<and>
        listdir demo_io_without_yes (path_join demo_io_without_yes data_folder ''yes'') =
          Inl (PyExc ''FileNotFoundError'' ''No such file or directory'')"
    by (simp add: demo_io_without_yes_def demo_io_def data_folder_def)
  then have "listdir demo_io_without_yes (path_join demo_io_without_yes data_folder ''no'') =
          Inl (PyExc ''FileNotFoundError'' ''No such file or directory'') \<or>
        (\<exists>ns. listdir demo_io_without_yes (path_join demo_io_without_yes data_folder ''no'') = Inr ns \<and>
              listdir demo_io_without_yes (path_join demo_io_without_yes data_folder ''yes'') =
                Inl (PyExc ''FileNotFoundError'' ''No such file or directory''))"
    by blast
  from listing_failure_aborts_run [OF this, of exact_numerics reversing_permutation]
  show ?thesis by simp
qed


section \<open>Properties of the shape adapter\<close>

lemma concat_blocks:
  assumes "length row = n1 * n2"
  shows "concat (map (\<lambda>j. map (\<lambda>k. row ! (j * n2 + k)) [0..<n2]) [0..<n1]) = row"
proof (rule nth_equalityI)
  let ?blocks = "map (\<lambda>j. map (\<lambda>k. row ! (j * n2 + k)) [0..<n2]) [0..<n1]"
  have u: "\<forall>b \<in> set ?blocks. length b = n2"
    by auto
  show len: "length (concat ?blocks) = length row"
    using length_concat_uniform [OF u] assms by simp
  fix m
  assume "m < length (concat ?blocks)"
  then have m: "m < n1 * n2"
    using len assms by simp
  then have pos: "0 < n2"
    by (cases n2) auto
  have j: "m div n2 < n1"
    using m pos by (simp add: less_mult_imp_div_less)
  have k: "m mod n2 < n2"
    using pos by simp
  have "concat ?blocks ! (m div n2 * n2 + m mod n2) = ?blocks ! (m div n2) ! (m mod n2)"
    by (rule nth_concat_uniform [OF u]) (use j k in simp_all)
  also have "\<dots> = row ! (m div n2 * n2 + m mod n2)"
    using j k by simp
  finally show "concat ?blocks ! m = row ! m"
    by simp
qed

lemma block_take_drop:
  assumes "length row = n1 * n2" and "j < n1"
  shows "map (\<lambda>k. row ! (j * n2 + k)) [0..<n2] = take n2 (drop (j * n2) row)"
proof (rule nth_equalityI)
  have "j * n2 + n2 \<le> n1 * n2"
    using assms(2) by (metis Suc_leI mult_Suc mult_le_mono1 add.commute)
  then show "length (map (\<lambda>k. row ! (j * n2 + k)) [0..<n2]) = length (take n2 (drop (j * n2) row))"
    using assms(1) by simp
  fix k
  assume "k < length (map (\<lambda>k. row ! (j * n2 + k)) [0..<n2])"
  then have "k < n2" by simp
  moreover have "j * n2 + n2 \<le> length row"
    using \<open>j * n2 + n2 \<le> n1 * n2\<close> assms(1) by simp
  ultimately show "map (\<lambda>k. row ! (j * n2 + k)) [0..<n2] ! k = take n2 (drop (j * n2) row) ! k"
    by simp
qed

lemma reshape3_rows:
  assumes "\<forall>row \<in> set X. length row = n1 * n2"
  shows "reshape3 X (length X, n1, n2) =
           Inr (map (\<lambda>row. map (\<lambda>j. map (\<lambda>k. row ! (j * n2 + k)) [0..<n2]) [0..<n1]) X)"
proof -
  have len: "length (concat X) = length X * n1 * n2"
    using length_concat_uniform [OF assms] by simp
  have "map (\<lambda>i. map (\<lambda>j. map (\<lambda>k. concat X ! ((i * n1 + j) * n2 + k)) [0..<n2]) [0..<n1]) [0..<length X]
      = map (\<lambda>row. map (\<lambda>j. map (\<lambda>k. row ! (j * n2 + k)) [0..<n2]) [0..<n1]) X"
  proof (rule nth_equalityI)
    show "length (map (\<lambda>i. map (\<lambda>j. map (\<lambda>k. concat X ! ((i * n1 + j) * n2 + k)) [0..<n2]) [0..<n1]) [0..<length X])
        = length (map (\<lambda>row. map (\<lambda>j. map (\<lambda>k. row ! (j * n2 + k)) [0..<n2]) [0..<n1]) X)"
      by simp
    fix i
    assume "i < length (map (\<lambda>i. map (\<lambda>j. map (\<lambda>k. concat X ! ((i * n1 + j) * n2 + k)) [0..<n2]) [0..<n1]) [0..<length X])"
    then have i: "i < length X" by simp
    have e: "concat X ! ((i * n1 + j) * n2 + k) = X ! i ! (j * n2 + k)" if "j < n1" "k < n2" for j k
    proof -
      have "j * n2 + k < n1 * n2"
      proof -
        have "j * n2 + k < j * n2 + n2" using that(2) by simp
        also have "\<dots> = Suc j * n2" by simp
        also have "\<dots> \<le> n1 * n2" using that(1) by (intro mult_le_mono1) simp
        finally show ?thesis .
      qed
      from nth_concat_uniform [OF assms i this]
      show ?thesis by (simp add: algebra_simps)
    qed
    show "map (\<lambda>i. map (\<lambda>j. map (\<lambda>k. concat X ! ((i * n1 + j) * n2 + k)) [0..<n2]) [0..<n1]) [0..<length X] ! i
        = map (\<lambda>row. map (\<lambda>j. map (\<lambda>k. row ! (j * n2 + k)) [0..<n2]) [0..<n1]) X ! i"
      using i e by simp
  qed
  then show ?thesis
    by (simp add: reshape3_def len)
qed

lemma reshape3_wrong_width:
  assumes "X \<noteq> []" and "\<forall>row \<in> set X. length row = w" and "w \<noteq> n1 * n2"
  shows "reshape3 X (length X, n1, n2) = Inl (ValueError ''cannot reshape array'')"
proof -
  have "length (concat X) = length X * w"
    by (rule length_concat_uniform [OF assms(2)])
  moreover have "length X * w \<noteq> length X * n1 * n2"
    using assms(1,3) by (simp add: mult.assoc)
  ultimately show ?thesis
    by (simp add: reshape3_def)
qed

lemma load_rows:
  assumes "snd (load_images_from_folder io folder) = Inr (X, y)"
  shows "\<forall>v \<in> set X. length v = 4096"
proof (cases "listdir io (path_join io folder ''no'')")
  case (Inl e)
  from load_no_listing_fails [OF this] assms show ?thesis by simp
next
  case no: (Inr ns)
  show ?thesis
  proof (cases "listdir io (path_join io folder ''yes'')")
    case (Inl e)
    from load_yes_listing_fails [OF no this] assms show ?thesis by simp
  next
    case (Inr ys)
    from load_images_from_folder_eq [OF no this] assms
    have "X = decoded_files io (path_join io folder ''no'') ns @
              decoded_files io (path_join io folder ''yes'') ys"
      by simp
    then show ?thesis
      using decoded_files_length by auto
  qed
qed

lemma safe_indexing_subset:
  assumes "safe_indexing a indices = Inr b"
  shows "set b \<subseteq> set a"
  using assms by (auto simp: safe_indexing_def split: if_splits)

lemma train_test_split_subset:
  assumes "train_test_split permutation X y test_size seed = Inr (X_train, X_test, y_train, y_test)"
  shows "set X_train \<subseteq> set X" and "set X_test \<subseteq> set X"
proof -
  from assms obtain train test where
    "safe_indexing X train = Inr X_train" "safe_indexing X test = Inr X_test"
    by (auto simp: train_test_split_def split: if_splits sum.splits prod.splits)
  then show "set X_train \<subseteq> set X" and "set X_test \<subseteq> set X"
    by (auto dest: safe_indexing_subset)
qed

lemma standardize_rows:
  assumes "\<forall>row \<in> set X. length row = w"
  shows "\<forall>row \<in> set (standardize num scaler X). length row = w"
  using assms by (auto simp: standardize_def)

lemma svm_stages_rows:
  assumes "snd (svm_stages io num permutation) = Inr vars"
  shows "\<forall>row \<in> set (v_X_train vars). length row = 4096"
    and "\<forall>row \<in> set (v_X_test vars). length row = 4096"
proof -
  from svm_stages_Inr [OF assms] obtain out X_train X_test where
    l: "load_images_from_folder io data_folder = (out, Inr (v_X vars, v_y vars))"
    and s: "train_test_split permutation (v_X vars) (v_y vars) (1/4) 90 =
             Inr (X_train, X_test, v_y_train vars, v_y_test vars)"
    and f: "feature_scaling num X_train X_test = Inr (v_scaler vars, v_X_train vars, v_X_test vars)"
    by blast
  from l have "snd (load_images_from_folder io data_folder) = Inr (v_X vars, v_y vars)"
    by simp
  from load_rows [OF this] train_test_split_subset [OF s]
  have r: "\<forall>row \<in> set X_train. length row = 4096" "\<forall>row \<in> set X_test. length row = 4096"
    by auto
  note fs = feature_scaling_Inr [OF f]
  show "\<forall>row \<in> set (v_X_train vars). length row = 4096"
    unfolding fs(2) by (rule standardize_rows [OF r(1)])
  show "\<forall>row \<in> set (v_X_test vars). length row = 4096"
    unfolding fs(3) by (rule standardize_rows [OF r(2)])
qed

lemma reshape3_flatten:
  assumes "\<forall>row \<in> set X. length row = 64 * 64"
  shows "\<exists>Y. reshape3 X (length X, 64, 64) = Inr Y \<and> map flatten Y = X"
proof -
  define Y where "Y = map (\<lambda>row. map (\<lambda>j. map (\<lambda>k. row ! (j * 64 + k)) [0..<64]) [0..<64]) X"
  have r: "reshape3 X (length X, 64, 64) = Inr Y"
    unfolding Y_def by (rule reshape3_rows [OF assms])
  have "map flatten Y = X"
  proof (rule nth_equalityI)
    show "length (map flatten Y) = length X"
      by (simp add: Y_def)
    fix i
    assume "i < length (map flatten Y)"
    then have i: "i < length X" by (simp add: Y_def)
    then have "length (X ! i) = 64 * 64"
      using assms by simp
    from concat_blocks [OF this] i show "map flatten Y ! i = X ! i"
      by (simp add: Y_def flatten_def)
  qed
  with r show ?thesis by blast
qed

lemma rnn_cell_reshapes:
  assumes "snd (rnn_stages io num permutation) = Inr vars"
  shows "\<exists>Y_train Y_test.
           reshape3 (v_X_train vars) (length (v_X_train vars), 64, 64) = Inr Y_train \<and>
           reshape3 (v_X_test vars) (length (v_X_test vars), 64, 64) = Inr Y_test \<and>
           map flatten Y_train = v_X_train vars \<and>
           map flatten Y_test = v_X_test vars \<and>
           rnn_cell io num permutation =
             (fst (rnn_stages io num permutation) @ [''Data loading and preprocessing complete.''],
              Inr \<lparr>v_X = v_X vars, v_y = v_y vars,
                   v_X_train = Y_train, v_X_test = Y_test,
                   v_y_train = v_y_train vars, v_y_test = v_y_test vars,
                   v_scaler = v_scaler vars\<rparr>)"
proof -
  from assms have s: "snd (svm_stages io num permutation) = Inr vars"
    by (simp add: rnn_stages_eq)
  from svm_stages_rows [OF s]
  have rows: "\<forall>row \<in> set (v_X_train vars). length row = 64 * 64"
    "\<forall>row \<in> set (v_X_test vars). length row = 64 * 64"
    by simp_all
  from reshape3_flatten [OF rows(1)] obtain Y_train where
    1: "reshape3 (v_X_train vars) (length (v_X_train vars), 64, 64) = Inr Y_train"
    and 2: "map flatten Y_train = v_X_train vars"
    by blast
  from reshape3_flatten [OF rows(2)] obtain Y_test where
    3: "reshape3 (v_X_test vars) (length (v_X_test vars), 64, 64) = Inr Y_test"
    and 4: "map flatten Y_test = v_X_test vars"
    by blast
  obtain out where o: "rnn_stages io num permutation = (out, Inr vars)"
    using assms by (cases "rnn_stages io num permutation") auto
  have "rnn_cell io num permutation =
             (fst (rnn_stages io num permutation) @ [''Data loading and preprocessing complete.''],
              Inr \<lparr>v_X = v_X vars, v_y = v_y vars,
                   v_X_train = Y_train, v_X_test = Y_test,
                   v_y_train = v_y_train vars, v_y_test = v_y_test vars,
                   v_scaler = v_scaler vars\<rparr>)"
    by (simp add: rnn_cell_def o 1 3)
  with 1 2 3 4 show ?thesis by blast
qed

text \<open>
  C5. Reshaping an array whose rows have 4096 values to \<^verbatim>\<open>(shape[0], 64, 64)\<close> returns
  one block of 64 steps of 64 values per row; flattening a block gives the row back, and
  step \<open>j\<close> is the row's values from position \<open>j * 64\<close> on, which are row \<open>j\<close> of the
  64 by 64 image. With rows of any other length the reshape raises. In the RNN cell the
  scaled rows have 4096 values, so both reshapes succeed: the cell ends with the closing
  message, and its \<^verbatim>\<open>X_train\<close> and \<^verbatim>\<open>X_test\<close> flatten back to the scaled matrices.
\<close>

theorem reshape_is_relabeling:
  "((\<forall>row \<in> set X. length row = 4096) \<longrightarrow>
      (\<exists>Y. reshape3 X (length X, 64, 64) = Inr Y \<and>
           length Y = length X \<and>
           map flatten Y = X \<and>
           (\<forall>i < length X.
              length (Y ! i) = 64 \<and>
              (\<forall>j < 64. length (Y ! i ! j) = 64 \<and>
                        Y ! i ! j = take 64 (drop (j * 64) (X ! i)) \<and>
                        (\<forall>k < 64. Y ! i ! j ! k = X ! i ! (j * 64 + k)))))) \<and>
   (X \<noteq> [] \<and> (\<forall>row \<in> set X. length row = w) \<and> w \<noteq> 4096 \<longrightarrow>
      reshape3 X (length X, 64, 64) = Inl (ValueError ''cannot reshape array'')) \<and>
   (snd (rnn_stages io num permutation) = Inr vars \<longrightarrow>
      (\<exists>Y_train Y_test.
         reshape3 (v_X_train vars) (length (v_X_train vars), 64, 64) = Inr Y_train \<and>
         reshape3 (v_X_test vars) (length (v_X_test vars), 64, 64) = Inr Y_test \<and>
         map flatten Y_train = v_X_train vars \<and>
         map flatten Y_test = v_X_test vars \<and>
         rnn_cell io num permutation =
           (fst (rnn_stages io num permutation) @ [''Data loading and preprocessing complete.''],
            Inr \<lparr>v_X = v_X vars, v_y = v_y vars,
                 v_X_train = Y_train, v_X_test = Y_test,
                 v_y_train = v_y_train vars, v_y_test = v_y_test vars,
                 v_scaler = v_scaler vars\<rparr>)))"
proof (intro conjI impI)
  assume rows: "\<forall>row \<in> set X. length row = 4096"
  then have rows': "\<forall>row \<in> set X. length row = 64 * 64"
    by simp
  define Y where "Y = map (\<lambda>row. map (\<lambda>j. map (\<lambda>k. row ! (j * 64 + k)) [0..<64]) [0..<64]) X"
  have r: "reshape3 X (length X, 64, 64) = Inr Y"
    unfolding Y_def by (rule reshape3_rows [OF rows'])
  have l: "length Y = length X"
    by (simp add: Y_def)
  have f: "map flatten Y = X"
  proof (rule nth_equalityI)
    show "length (map flatten Y) = length X"
      by (simp add: l)
    fix i
    assume "i < length (map flatten Y)"
    then have i: "i < length X" by (simp add: l)
    then have "length (X ! i) = 64 * 64"
      using rows' by simp
    from concat_blocks [OF this] i show "map flatten Y ! i = X ! i"
      by (simp add: Y_def flatten_def)
  qed
  have b: "length (Y ! i) = 64 \<and>
      (\<forall>j < 64. length (Y ! i ! j) = 64 \<and>
                Y ! i ! j = take 64 (drop (j * 64) (X ! i)) \<and>
                (\<forall>k < 64. Y ! i ! j ! k = X ! i ! (j * 64 + k)))" if i: "i < length X" for i
  proof -
    have li: "length (X ! i) = 64 * 64"
      using rows' i by simp
    have Yi: "Y ! i = map (\<lambda>j. map (\<lambda>k. X ! i ! (j * 64 + k)) [0..<64]) [0..<64]"
      using i by (simp add: Y_def)
    have "Y ! i ! j = take 64 (drop (j * 64) (X ! i))" if "j < 64" for j
      using block_take_drop [OF li that] that by (simp add: Yi)
    moreover have "length (Y ! i ! j) = 64 \<and> (\<forall>k < 64. Y ! i ! j ! k = X ! i ! (j * 64 + k))"
      if "j < 64" for j
      using that by (simp add: Yi)
    ultimately show ?thesis
      by (simp add: Yi)
  qed
  from r l f b show "\<exists>Y. reshape3 X (length X, 64, 64) = Inr Y \<and>
           length Y = length X \<and>
           map flatten Y = X \<and>
           (\<forall>i < length X.
              length (Y ! i) = 64 \<and>
              (\<forall>j < 64. length (Y ! i ! j) = 64 \<and>
                        Y ! i ! j = take 64 (drop (j * 64) (X ! i)) \<and>
                        (\<forall>k < 64. Y ! i ! j ! k = X ! i ! (j * 64 + k))))"
    by blast
next
  assume "X \<noteq> [] \<and> (\<forall>row \<in> set X. length row = w) \<and> w \<noteq> 4096"
  then show "reshape3 X (length X, 64, 64) = Inl (ValueError ''cannot reshape array'')"
    using reshape3_wrong_width [of X w 64 64] by simp
next
  assume "snd (rnn_stages io num permutation) = Inr vars"
  then show "\<exists>Y_train Y_test.
         reshape3 (v_X_train vars) (length (v_X_train vars), 64, 64) = Inr Y_train \<and>
         reshape3 (v_X_test vars) (length (v_X_test vars), 64, 64) = Inr Y_test \<and>
         map flatten Y_train = v_X_train vars \<and>
         map flatten Y_test = v_X_test vars \<and>
         rnn_cell io num permutation =
           (fst (rnn_stages io num permutation) @ [''Data loading and preprocessing complete.''],
            Inr \<lparr>v_X = v_X vars, v_y = v_y vars,
                 v_X_train = Y_train, v_X_test = Y_test,
                 v_y_train = v_y_train vars, v_y_test = v_y_test vars,
                 v_scaler = v_scaler vars\<rparr>)"
    by (rule rnn_cell_reshapes)
qed

theorem reshape_is_relabeling_witness:
  "(\<exists>Y. reshape3 [map int [0..<4096]] (1, 64, 64) = Inr Y \<and>
        length Y = 1 \<and>
        flatten (Y ! 0) = map int [0..<4096] \<and>
        length (Y ! 0) = 64 \<and> length (Y ! 0 ! 1) = 64 \<and>
        Y ! 0 ! 1 ! 2 = 66) \<and>
   reshape3 [[1, 2, 3 :: int]] (1, 64, 64) = Inl (ValueError ''cannot reshape array'') \<and>
   (\<exists>vars Y_train Y_test.
      snd (rnn_stages demo_io exact_numerics reversing_permutation) = Inr vars \<and>
      rnn_cell demo_io exact_numerics reversing_permutation =
        ([''Error loading image ./brain_tumor_dataset/no/notes.txt: cannot identify image file'',
          ''Data loading and preprocessing complete.''],
         Inr \<lparr>v_X = [demo_n1, demo_n2, demo_y1], v_y = [0, 0, 1],
              v_X_train = Y_train, v_X_test = Y_test,
              v_y_train = [0, 0], v_y_test = [1],
              v_scaler = v_scaler vars\<rparr>) \<and>
      map flatten Y_train = v_X_train vars \<and> length Y_train = 2 \<and>
      map flatten Y_test = v_X_test vars \<and> length Y_test = 1)"
proof -
  define X where "X = [map int [0..<4096]]"
  have rows: "\<forall>row \<in> set X. length row = 4096"
    by (simp add: X_def)
  have lX: "length X = 1" and X0: "X ! 0 = map int [0..<4096]"
    by (simp_all add: X_def)
  note good = reshape_is_relabeling [of X, THEN conjunct1, THEN mp, OF rows]
  then obtain Y where
    r: "reshape3 X (length X, 64, 64) = Inr Y" and l: "length Y = length X"
    and f: "map flatten Y = X"
    and b: "\<forall>i < length X.
              length (Y ! i) = 64 \<and>
              (\<forall>j < 64. length (Y ! i ! j) = 64 \<and>
                        Y ! i ! j = take 64 (drop (j * 64) (X ! i)) \<and>
                        (\<forall>k < 64. Y ! i ! j ! k = X ! i ! (j * 64 + k)))"
    by (elim exE conjE)
  have i0: "0 < length X" and j1: "(1 :: nat) < 64" and k2: "(2 :: nat) < 64"
    by (simp_all add: lX)
  note s0 = b [rule_format, OF i0]
  note b0 = s0 [THEN conjunct1]
  note s1 = s0 [THEN conjunct2, rule_format, OF j1]
  note b1 = s1 [THEN conjunct1]
  note s2 = s1 [THEN conjunct2, THEN conjunct2, rule_format, OF k2]
  have e: "Y ! 0 ! 1 ! 2 = 66"
    unfolding s2 X0 by simp
  have "map flatten Y ! 0 = X ! 0"
    unfolding f by (rule refl)
  moreover have "map flatten Y ! 0 = flatten (Y ! 0)"
    by (rule nth_map) (simp add: l lX)
  ultimately have f0: "flatten (Y ! 0) = map int [0..<4096]"
    unfolding X0 by simp
  have three: "[[1, 2, 3 :: int]] \<noteq> [] \<and> (\<forall>row \<in> set [[1, 2, 3 :: int]]. length row = 3) \<and> (3 :: nat) \<noteq> 4096"
    by simp
  note reshape_is_relabeling [of "[[1, 2, 3 :: int]]" 3, THEN conjunct2, THEN conjunct1, THEN mp, OF three]
  then have bad: "reshape3 [[1, 2, 3 :: int]] (1, 64, 64) = Inl (ValueError ''cannot reshape array'')"
    by simp
  have r': "reshape3 [map int [0..<4096]] (1, 64, 64) = Inr Y"
    using r unfolding lX unfolding X_def .
  have l': "length Y = 1"
    using l unfolding lX .
  from demo_run obtain scaler where
    run: "svm_stages demo_io exact_numerics reversing_permutation =
       ([''Error loading image ./brain_tumor_dataset/no/notes.txt: cannot identify image file''],
        Inr \<lparr>v_X = [demo_n1, demo_n2, demo_y1], v_y = [0, 0, 1],
             v_X_train = standardize exact_numerics scaler [demo_n2, demo_n1],
             v_X_test = standardize exact_numerics scaler [demo_y1],
             v_y_train = [0, 0], v_y_test = [1], v_scaler = scaler\<rparr>)"
    by blast
  define vars where "vars = \<lparr>v_X = [demo_n1, demo_n2, demo_y1], v_y = [0, 0, 1],
             v_X_train = standardize exact_numerics scaler [demo_n2, demo_n1],
             v_X_test = standardize exact_numerics scaler [demo_y1],
             v_y_train = [0, 0], v_y_test = [1 :: int], v_scaler = scaler\<rparr>"
  have st: "rnn_stages demo_io exact_numerics reversing_permutation =
      ([''Error loading image ./brain_tumor_dataset/no/notes.txt: cannot identify image file''], Inr vars)"
    by (simp add: rnn_stages_eq run vars_def)
  then have v: "snd (rnn_stages demo_io exact_numerics reversing_permutation) = Inr vars"
    by simp
  from reshape_is_relabeling [where io = demo_io and num = exact_numerics and permutation = reversing_permutation
      and vars = vars and X = X, THEN conjunct2, THEN conjunct2, THEN mp, OF v]
  obtain Y_train Y_test where
    ft: "map flatten Y_train = v_X_train vars" and fe: "map flatten Y_test = v_X_test vars"
    and cell: "rnn_cell demo_io exact_numerics reversing_permutation =
           (fst (rnn_stages demo_io exact_numerics reversing_permutation) @
              [''Data loading and preprocessing complete.''],
            Inr \<lparr>v_X = v_X vars, v_y = v_y vars,
                 v_X_train = Y_train, v_X_test = Y_test,
                 v_y_train = v_y_train vars, v_y_test = v_y_test vars,
                 v_scaler = v_scaler vars\<rparr>)"
    by (elim exE conjE)
  have "length (map flatten Y_train) = 2" "length (map flatten Y_test) = 1"
    unfolding ft fe by (simp_all add: vars_def standardize_def)
  then have lt: "length Y_train = 2" and le: "length Y_test = 1"
    by simp_all
  have cell': "rnn_cell demo_io exact_numerics reversing_permutation =
        ([''Error loading image ./brain_tumor_dataset/no/notes.txt: cannot identify image file'',
          ''Data loading and preprocessing complete.''],
         Inr \<lparr>v_X = [demo_n1, demo_n2, demo_y1], v_y = [0, 0, 1],
              v_X_train = Y_train, v_X_test = Y_test,
              v_y_train = [0, 0], v_y_test = [1],
              v_scaler = v_scaler vars\<rparr>)"
    unfolding cell st by (simp add: vars_def)
  have pipeline: "\<exists>vars Y_train Y_test.
      snd (rnn_stages demo_io exact_numerics reversing_permutation) = Inr vars \<and>
      rnn_cell demo_io exact_numerics reversing_permutation =
        ([''Error loading image ./brain_tumor_dataset/no/notes.txt: cannot identify image file'',
          ''Data loading and preprocessing complete.''],
         Inr \<lparr>v_X = [demo_n1, demo_n2, demo_y1], v_y = [0, 0, 1],
              v_X_train = Y_train, v_X_test = Y_test,
              v_y_train = [0, 0], v_y_test = [1],
              v_scaler = v_scaler vars\<rparr>) \<and>
      map flatten Y_train = v_X_train vars \<and> length Y_train = 2 \<and>
      map flatten Y_test = v_X_test vars \<and> length Y_test = 1"
    by (rule exI [of _ vars], rule exI [of _ Y_train], rule exI [of _ Y_test])
      (intro conjI, (rule v cell' ft lt fe le)+)
  have first: "\<exists>Y. reshape3 [map int [0..<4096]] (1, 64, 64) = Inr Y \<and>
        length Y = 1 \<and>
        flatten (Y ! 0) = map int [0..<4096] \<and>
        length (Y ! 0) = 64 \<and> length (Y ! 0 ! 1) = 64 \<and>
        Y ! 0 ! 1 ! 2 = 66"
    by (rule exI [of _ Y]) (intro conjI, (rule r' l' f0 b0 b1 e)+)
  show ?thesis
    by (rule conjI [OF first conjI [OF bad pipeline]])
qed

end
